theory Spec2Isabelle
  imports Main
begin

section \<open>The exam-taking session of ExamPanel.tsx\<close>

text \<open>
  The component \<^verbatim>\<open>ExamPanel\<close> (src/pages/ExamPanel.tsx) keeps five pieces of React state
  (\<^verbatim>\<open>timeLeft\<close>, \<^verbatim>\<open>currentQuestionIndex\<close>, \<^verbatim>\<open>answers\<close>, \<^verbatim>\<open>isSubmitting\<close>, \<^verbatim>\<open>startTime\<close>),
  mirrors part of it to \<^verbatim>\<open>localStorage\<close>, runs a one-second interval and posts the attempt
  through a mutation. Every handler is modelled as a function from the world before the
  handler to the world after it. What a handler does to the outside (a dialog, a toast, a
  navigation, a network call) is appended to the field \<open>effects\<close> in program order.
\<close>

subsection \<open>Data\<close>

datatype qtype = Mcq | Subjective

text \<open>\<^verbatim>\<open>interface Question\<close>; \<^verbatim>\<open>_id\<close> is the only field the handlers read.\<close>

record Question =
  q_id :: string
  q_type :: qtype
  q_marks :: int

text \<open>\<^verbatim>\<open>interface Answer\<close>.\<close>

record Answer =
  questionIndex :: nat
  selectedOption :: string
  question :: string

text \<open>\<^verbatim>\<open>interface ExamPaper\<close>, restricted to the fields the handlers read; \<open>duration\<close> is in minutes.\<close>

record ExamPaper =
  p_id :: string
  duration :: int
  questions :: "Question list"

text \<open>
  The strings held by \<^verbatim>\<open>localStorage\<close>, kept by what produced them:
  \<^verbatim>\<open>JSON.stringify(answers)\<close>, \<^verbatim>\<open>n.toString()\<close>, \<^verbatim>\<open>date.toISOString()\<close> (the date in
  milliseconds since the epoch), and \<open>RawText\<close> for the empty text and for text that is
  neither JSON nor begins with a number (a token, a name).
\<close>

datatype stored = AnswersJson "Answer list" | NumText int | DateText nat | RawText string

type_synonym storage = "string \<rightharpoonup> stored"

text \<open>The body of the request built by \<^verbatim>\<open>handleSubmit\<close>.\<close>

record SubmitPayload =
  sp_examPaper :: string
  sp_answers :: "(nat \<times> string) list"
  sp_startTime :: nat
  sp_endTime :: nat
  sp_isSubmitted :: bool

datatype variant = Default | Destructive

text \<open>
  What the handlers do to the outside: \<^verbatim>\<open>navigate(path, {state: {from}})\<close>,
  \<^verbatim>\<open>setTimeout(() => navigate(path), ms)\<close>, \<^verbatim>\<open>toast({title, description, variant})\<close>,
  \<^verbatim>\<open>window.confirm(text)\<close> and \<^verbatim>\<open>submitMutation.mutate(payload)\<close>.
\<close>

datatype effect =
    Navigate string "string option"
  | NavigateAfter nat string
  | Toast string string variant
  | Confirm string
  | Mutate SubmitPayload

text \<open>
  The error handed to \<^verbatim>\<open>onError\<close>: \<^verbatim>\<open>error.response\<close> may be absent (a network error), and so
  may \<^verbatim>\<open>error.response.data.message\<close>.
\<close>

record ErrorResponse =
  status :: int
  message :: "string option"

type_synonym submitError = "ErrorResponse option"

text \<open>
  The values of one render that the closures created in that render see. A handler that is
  created in a render and called later still reads these values. This matters for the timer
  effect: its dependency list is \<^verbatim>\<open>[examPaper]\<close>, so the interval callback is created once,
  in the render in which the paper arrived, and the \<^verbatim>\<open>handleSubmit\<close> it calls is the one of
  that render.
\<close>

record view =
  v_answers :: "Answer list"
  v_isSubmitting :: bool
  v_user :: bool
  v_examPaper :: "ExamPaper option"

text \<open>
  The world: the React state, the route parameter \<open>examId\<close>, the authentication context
  (\<open>user\<close>: \<^verbatim>\<open>user\<close> and \<^verbatim>\<open>token\<close> are present; the context sets and clears them together),
  the query result \<open>examPaper\<close>, the running
  interval (\<open>timer\<close>: absent, or running with the render whose \<^verbatim>\<open>handleSubmit\<close> its callback
  calls), \<^verbatim>\<open>localStorage\<close>, the wall clock in milliseconds, and three observations:
  the number of submission calls that have not been answered yet, the number of times the
  interval callback has taken its expiry branch, and the effects so far.
\<close>

record world =
  timeLeft :: int
  currentQuestionIndex :: nat
  answers :: "Answer list"
  isSubmitting :: bool
  startTime :: nat
  examId :: string
  user :: bool
  examPaper :: "ExamPaper option"
  timer :: "view option"
  localStorage :: storage
  clock :: nat
  inFlight :: nat
  expiryCalls :: nat
  effects :: "effect list"

subsection \<open>Keys of the side-store\<close>

definition examKey :: "string \<Rightarrow> string \<Rightarrow> string" where
  "examKey i suffix = ''exam_'' @ i @ suffix"

definition answersKey :: "string \<Rightarrow> string" where
  "answersKey i = examKey i ''_answers''"

definition questionIndexKey :: "string \<Rightarrow> string" where
  "questionIndexKey i = examKey i ''_questionIndex''"

definition timeLeftKey :: "string \<Rightarrow> string" where
  "timeLeftKey i = examKey i ''_timeLeft''"

definition startTimeKey :: "string \<Rightarrow> string" where
  "startTimeKey i = examKey i ''_startTime''"

definition removeItem :: "string \<Rightarrow> storage \<Rightarrow> storage" where
  "removeItem k st = st(k := None)"

definition setItem :: "string \<Rightarrow> stored \<Rightarrow> storage \<Rightarrow> storage" where
  "setItem k v st = st(k \<mapsto> v)"

subsection \<open>Rendering and the effects that follow a render\<close>

definition render :: "world \<Rightarrow> view" where
  "render w = \<lparr>v_answers = answers w, v_isSubmitting = isSubmitting w,
                v_user = user w, v_examPaper = examPaper w\<rparr>"

definition loginRedirect :: "world \<Rightarrow> effect" where
  "loginRedirect w = Navigate ''/login'' (Some (''/exam-panel/'' @ examId w))"

text \<open>
  \<^verbatim>\<open>useEffect(..., [answers, currentQuestionIndex, id])\<close>: after a render in which one of them
  changed, both values are written to the store.
\<close>

definition saveEffect :: "world \<Rightarrow> world" where
  "saveEffect w =
     w\<lparr>localStorage :=
         setItem (questionIndexKey (examId w)) (NumText (int (currentQuestionIndex w)))
           (setItem (answersKey (examId w)) (AnswersJson (answers w)) (localStorage w))\<rparr>"

datatype jsError = TypeError | SyntaxError

text \<open>
  The year of a date given in milliseconds since the epoch (the proleptic Gregorian calendar
  in UTC, as \<^verbatim>\<open>toISOString\<close> prints it): what \<^verbatim>\<open>parseInt\<close> reads from the text of a date.
\<close>

definition isoYear :: "nat \<Rightarrow> nat" where
  "isoYear ms =
     (let z = ms div 86400000 + 719468;
          era = z div 146097;
          doe = z mod 146097;
          yoe = (doe - doe div 1460 + doe div 36524 - doe div 146096) div 365;
          doy = doe - (365 * yoe + yoe div 4 - yoe div 100);
          mp = (5 * doy + 2) div 153
      in yoe + era * 400 + (if mp < 10 then 0 else 1))"

text \<open>
  \<^verbatim>\<open>if (savedAnswers) setAnswers(JSON.parse(savedAnswers))\<close>. A missing key and the empty text
  are falsy and leave the state as it is. The text of a date and other text that is not JSON
  make \<^verbatim>\<open>JSON.parse\<close> throw. The text of a number parses to a number: the state then holds
  no list, and the first render that has the paper throws when it calls \<^verbatim>\<open>answers.find\<close>; no
  handler of the component runs before that render, and the failure is reported here.
\<close>

definition restoreAnswers :: "stored option \<Rightarrow> Answer list \<Rightarrow> jsError + Answer list" where
  "restoreAnswers saved cur =
     (case saved of
        None \<Rightarrow> Inr cur
      | Some (AnswersJson as) \<Rightarrow> Inr as
      | Some (NumText n) \<Rightarrow> Inl TypeError
      | Some (DateText d) \<Rightarrow> Inl SyntaxError
      | Some (RawText t) \<Rightarrow> (if t = [] then Inr cur else Inl SyntaxError))"

text \<open>
  \<^verbatim>\<open>if (savedQuestionIndex) setCurrentQuestionIndex(parseInt(savedQuestionIndex))\<close>.
  \<^verbatim>\<open>parseInt\<close> reads the number of a number's text and the year of a date's text, and gives
  \<^verbatim>\<open>NaN\<close> for the text of a list and for other text. With a negative index or \<^verbatim>\<open>NaN\<close> in the
  state, the first render that has the paper throws when it reads \<^verbatim>\<open>currentQuestion.marks\<close>;
  that failure is reported here as well. An index that is too large for the paper is restored
  as it is.
\<close>

definition restoreIndex :: "stored option \<Rightarrow> nat \<Rightarrow> jsError + nat" where
  "restoreIndex saved cur =
     (case saved of
        None \<Rightarrow> Inr cur
      | Some (NumText n) \<Rightarrow> (if 0 \<le> n then Inr (nat n) else Inl TypeError)
      | Some (DateText d) \<Rightarrow> Inr (isoYear d)
      | Some (AnswersJson as) \<Rightarrow> Inl TypeError
      | Some (RawText t) \<Rightarrow> (if t = [] then Inr cur else Inl TypeError))"

text \<open>\<^verbatim>\<open>useEffect(..., [id])\<close>: the saved answers and question index are read back.\<close>

definition restoreEffect :: "world \<Rightarrow> jsError + world" where
  "restoreEffect w =
     (case restoreAnswers (localStorage w (answersKey (examId w))) (answers w) of
        Inl e \<Rightarrow> Inl e
      | Inr as \<Rightarrow>
          (case restoreIndex (localStorage w (questionIndexKey (examId w)))
                  (currentQuestionIndex w) of
             Inl e \<Rightarrow> Inl e
           | Inr k \<Rightarrow> Inr (w\<lparr>answers := as, currentQuestionIndex := k\<rparr>)))"

text \<open>
  The state of the first render (\<^verbatim>\<open>startTime\<close> is \<^verbatim>\<open>new Date()\<close>), with the first effect
  already run: an unauthenticated visitor is sent to the login page.
\<close>

definition initial :: "string \<Rightarrow> bool \<Rightarrow> nat \<Rightarrow> storage \<Rightarrow> world" where
  "initial i u now st =
     \<lparr>timeLeft = 0, currentQuestionIndex = 0, answers = [], isSubmitting = False,
      startTime = now, examId = i, user = u, examPaper = None, timer = None,
      localStorage = st, clock = now, inFlight = 0, expiryCalls = 0,
      effects = (if u then [] else [Navigate ''/login'' (Some (''/exam-panel/'' @ i))])\<rparr>"

text \<open>
  Whether the component's render returns. Without a paper it shows the spinner or the error
  page. With a paper it reads \<^verbatim>\<open>examPaper.questions[currentQuestionIndex].marks\<close>, which
  throws when there is no such question (an index outside the paper, a paper without
  questions).
\<close>

definition renders :: "world \<Rightarrow> bool" where
  "renders w =
     (case examPaper w of
        None \<Rightarrow> True
      | Some p \<Rightarrow> currentQuestionIndex w < length (questions p))"

text \<open>
  Mounting while the paper is still being fetched (the case after a reload): the timer effect
  finds no paper, the saved state is restored, and the save effect of the following render
  writes it back.
\<close>

definition mount :: "string \<Rightarrow> bool \<Rightarrow> nat \<Rightarrow> storage \<Rightarrow> jsError + world" where
  "mount i u now st =
     (case restoreEffect (initial i u now st) of
        Inl e \<Rightarrow> Inl e
      | Inr w \<Rightarrow> Inr (saveEffect w))"

text \<open>
  The timer effect, \<^verbatim>\<open>useEffect(..., [examPaper])\<close>: when the paper has a non-zero duration
  the counter is set to \<^verbatim>\<open>duration * 60\<close>, the interval is started with the closures of the
  current render, and the counter and the start time are written to the store.
\<close>

definition timerEffect :: "world \<Rightarrow> world" where
  "timerEffect w =
     (case examPaper w of
        None \<Rightarrow> w
      | Some p \<Rightarrow>
          if duration p = 0 then w
          else w\<lparr>timeLeft := duration p * 60,
                 timer := Some (render w),
                 localStorage :=
                   setItem (startTimeKey (examId w)) (DateText (startTime w))
                     (setItem (timeLeftKey (examId w)) (NumText (duration p * 60))
                        (localStorage w))\<rparr>)"

text \<open>
  The function the timer effect returns:
  \<^verbatim>\<open>clearInterval(timer); removeItem(exam_<id>_timeLeft); removeItem(exam_<id>_startTime)\<close>.
\<close>

definition timerCleanup :: "world \<Rightarrow> world" where
  "timerCleanup w =
     w\<lparr>timer := None,
       localStorage :=
         removeItem (startTimeKey (examId w))
           (removeItem (timeLeftKey (examId w)) (localStorage w))\<rparr>"

text \<open>
  The component unmounts (the student leaves the page, or a handler has navigated away). The
  timer effect has returned its cleanup exactly when it ran with a paper of non-zero duration,
  and in a session it has run with the paper the world holds. No handler of the page runs
  after the unmount.
\<close>

definition unmount :: "world \<Rightarrow> world" where
  "unmount w =
     (case examPaper w of
        None \<Rightarrow> w
      | Some p \<Rightarrow> if duration p = 0 then w else timerCleanup w)"

text \<open>
  The query delivers the paper to a mounted component: the component renders with it, and
  when the render returns the timer effect runs.
\<close>

definition loaded :: "ExamPaper \<Rightarrow> world \<Rightarrow> jsError + world" where
  "loaded p w =
     (if renders (w\<lparr>examPaper := Some p\<rparr>)
      then Inr (timerEffect (w\<lparr>examPaper := Some p\<rparr>))
      else Inl TypeError)"

text \<open>
  A later fetch delivers a different paper object: after the render the cleanup of the old
  timer effect runs, then the timer effect runs again with the new paper.
\<close>

definition paperChanged :: "ExamPaper \<Rightarrow> world \<Rightarrow> jsError + world" where
  "paperChanged p w =
     (if renders (w\<lparr>examPaper := Some p\<rparr>)
      then Inr (timerEffect ((unmount w)\<lparr>examPaper := Some p\<rparr>))
      else Inl TypeError)"


text \<open>
  The session of a logged-in student after a reload: the mount, then the arrival of the
  paper. (Without a token the query is disabled and the page is left for the login page.)
\<close>

definition openSession :: "string \<Rightarrow> nat \<Rightarrow> storage \<Rightarrow> ExamPaper \<Rightarrow> jsError + world" where
  "openSession i now st p =
     (case mount i True now st of
        Inl e \<Rightarrow> Inl e
      | Inr w \<Rightarrow> loaded p w)"

text \<open>Wall-clock time passes; no handler runs.\<close>

definition elapse :: "nat \<Rightarrow> world \<Rightarrow> world" where
  "elapse ms w = w\<lparr>clock := clock w + ms\<rparr>"

subsection \<open>Answers and navigation\<close>

text \<open>\<^verbatim>\<open>Array.prototype.findIndex\<close>; \<open>None\<close> stands for \<^verbatim>\<open>-1\<close>.\<close>

fun findIndex :: "('a \<Rightarrow> bool) \<Rightarrow> 'a list \<Rightarrow> nat option" where
  "findIndex P [] = None"
| "findIndex P (x # xs) =
     (if P x then Some 0 else (case findIndex P xs of None \<Rightarrow> None | Some i \<Rightarrow> Some (Suc i)))"

text \<open>
  \<^verbatim>\<open>handleAnswerChange\<close>. Reading \<^verbatim>\<open>examPaper.questions[currentQuestionIndex]._id\<close> throws when
  there is no such question, before any state is set.
\<close>

definition handleAnswerChange :: "string \<Rightarrow> world \<Rightarrow> jsError + world" where
  "handleAnswerChange answer w =
     (case examPaper w of
        None \<Rightarrow> Inl TypeError
      | Some p \<Rightarrow>
          if currentQuestionIndex w < length (questions p) then
            (let entry = \<lparr>questionIndex = currentQuestionIndex w, selectedOption = answer,
                          question = q_id (questions p ! currentQuestionIndex w)\<rparr>
             in (case findIndex (\<lambda>a. questionIndex a = currentQuestionIndex w) (answers w) of
                   Some i \<Rightarrow> Inr (w\<lparr>answers := (answers w)[i := entry]\<rparr>)
                 | None \<Rightarrow> Inr (w\<lparr>answers := answers w @ [entry]\<rparr>)))
          else Inl TypeError)"

text \<open>An answer event: the handler, then the save effect of the render it causes.\<close>

definition answerChange :: "string \<Rightarrow> world \<Rightarrow> world" where
  "answerChange answer w =
     (case handleAnswerChange answer w of Inl e \<Rightarrow> w | Inr w' \<Rightarrow> saveEffect w')"

text \<open>
  \<^verbatim>\<open>handleNext\<close> and \<^verbatim>\<open>handlePrevious\<close>, each followed by the save effect when the index
  changed. Without a paper \<^verbatim>\<open>handleNext\<close> throws before it sets anything.
\<close>

definition handleNext :: "world \<Rightarrow> world" where
  "handleNext w =
     (case examPaper w of
        None \<Rightarrow> w
      | Some p \<Rightarrow>
          if int (currentQuestionIndex w) < int (length (questions p)) - 1
          then saveEffect (w\<lparr>currentQuestionIndex := currentQuestionIndex w + 1\<rparr>)
          else w)"

definition handlePrevious :: "world \<Rightarrow> world" where
  "handlePrevious w =
     (if currentQuestionIndex w > 0
      then saveEffect (w\<lparr>currentQuestionIndex := currentQuestionIndex w - 1\<rparr>)
      else w)"

text \<open>
  The value shown for question \<open>i\<close>:
  \<^verbatim>\<open>answers.find(a => a.questionIndex === i)?.selectedOption || ''\<close>.
\<close>

definition getAnswer :: "nat \<Rightarrow> world \<Rightarrow> string" where
  "getAnswer i w =
     (case find (\<lambda>a. questionIndex a = i) (answers w) of
        None \<Rightarrow> []
      | Some a \<Rightarrow> (if selectedOption a = [] then [] else selectedOption a))"

subsection \<open>Submission\<close>

definition confirmText :: string where
  "confirmText = ''You have unanswered questions. Are you sure you want to submit?''"

definition payload :: "view \<Rightarrow> ExamPaper \<Rightarrow> world \<Rightarrow> SubmitPayload" where
  "payload v p w =
     \<lparr>sp_examPaper = p_id p,
      sp_answers = map (\<lambda>a. (questionIndex a, selectedOption a)) (v_answers v),
      sp_startTime = startTime w, sp_endTime = clock w, sp_isSubmitted = True\<rparr>"

text \<open>\<^verbatim>\<open>setIsSubmitting(true); submitMutation.mutate({...})\<close>.\<close>

definition submitNow :: "view \<Rightarrow> ExamPaper \<Rightarrow> world \<Rightarrow> world" where
  "submitNow v p w =
     w\<lparr>isSubmitting := True, inFlight := inFlight w + 1,
       effects := effects w @ [Mutate (payload v p w)]\<rparr>"

text \<open>
  \<^verbatim>\<open>handleSubmit\<close>, as created in the render \<open>v\<close>. \<open>confirmed\<close> is what the user answers
  if \<^verbatim>\<open>window.confirm\<close> is shown.
\<close>

definition handleSubmit :: "view \<Rightarrow> bool \<Rightarrow> world \<Rightarrow> world" where
  "handleSubmit v confirmed w =
     (if v_isSubmitting v then w
      else (case v_examPaper v of
              None \<Rightarrow> w\<lparr>effects := effects w @ [loginRedirect w]\<rparr>
            | Some p \<Rightarrow>
                if \<not> v_user v then w\<lparr>effects := effects w @ [loginRedirect w]\<rparr>
                else if length (v_answers v) < length (questions p) then
                  (if confirmed
                   then submitNow v p (w\<lparr>effects := effects w @ [Confirm confirmText]\<rparr>)
                   else w\<lparr>effects := effects w @ [Confirm confirmText]\<rparr>)
                else submitNow v p w))"

text \<open>The submit button: \<^verbatim>\<open>handleSubmit\<close> of the current render.\<close>

definition clickSubmit :: "bool \<Rightarrow> world \<Rightarrow> world" where
  "clickSubmit confirmed w = handleSubmit (render w) confirmed w"

text \<open>
  One firing of the interval. The callback runs the updater
  \<^verbatim>\<open>prev => { if (prev <= 1) { clearInterval(timer); handleSubmit(); return 0 } return prev - 1 }\<close>
  where \<^verbatim>\<open>handleSubmit\<close> is the one of the render in which the timer effect ran.
\<close>

definition tick :: "bool \<Rightarrow> world \<Rightarrow> world" where
  "tick confirmed w =
     (case timer w of
        None \<Rightarrow> w
      | Some v \<Rightarrow>
          if timeLeft w \<le> 1
          then (handleSubmit v confirmed
                  (w\<lparr>timer := None, expiryCalls := expiryCalls w + 1\<rparr>))\<lparr>timeLeft := 0\<rparr>
          else w\<lparr>timeLeft := timeLeft w - 1\<rparr>)"

text \<open>A run of the interval; each firing comes with the user's answer to a possible dialog.\<close>

definition ticks :: "bool list \<Rightarrow> world \<Rightarrow> world" where
  "ticks cs w = foldl (\<lambda>w' c. tick c w') w cs"

text \<open>\<^verbatim>\<open>submitMutation.onSuccess\<close>.\<close>

definition onSuccess :: "world \<Rightarrow> world" where
  "onSuccess w =
     w\<lparr>inFlight := inFlight w - 1,
       localStorage :=
         removeItem (startTimeKey (examId w))
           (removeItem (timeLeftKey (examId w))
              (removeItem (questionIndexKey (examId w))
                 (removeItem (answersKey (examId w)) (localStorage w)))),
       effects := effects w @
         [Toast ''Success'' ''Exam submitted successfully!'' Default,
          Navigate ''/dashboard'' None]\<rparr>"

text \<open>\<^verbatim>\<open>submitMutation.onError\<close>.\<close>

definition alreadySubmitted :: string where
  "alreadySubmitted = ''You have already submitted this exam''"

definition errorMessage :: "submitError \<Rightarrow> string" where
  "errorMessage e =
     (case e of
        None \<Rightarrow> ''Failed to submit exam. Please try again.''
      | Some r \<Rightarrow>
          (case message r of
             None \<Rightarrow> ''Failed to submit exam. Please try again.''
           | Some m \<Rightarrow> (if m = [] then ''Failed to submit exam. Please try again.'' else m)))"

definition onError :: "submitError \<Rightarrow> world \<Rightarrow> world" where
  "onError e w =
     (let w1 = w\<lparr>isSubmitting := False, inFlight := inFlight w - 1\<rparr>
      in if map_option status e = Some 401
         then w1\<lparr>effects := effects w1 @ [loginRedirect w1]\<rparr>
         else if map_option status e = Some 400
                 \<and> Option.bind e message = Some alreadySubmitted
         then w1\<lparr>effects := effects w1 @
                  [Toast ''Already Submitted''
                     ''You have already submitted this exam. Redirecting to dashboard...''
                     Default,
                   NavigateAfter 2000 ''/dashboard'']\<rparr>
         else w1\<lparr>effects := effects w1 @ [Toast ''Error'' (errorMessage e) Destructive]\<rparr>)"

subsection \<open>Logout (lib/auth-context.tsx)\<close>

text \<open>\<^verbatim>\<open>String.prototype.startsWith\<close> and \<^verbatim>\<open>String.prototype.includes\<close> (here \<open>includesStr\<close>).\<close>

definition startsWith :: "string \<Rightarrow> string \<Rightarrow> bool" where
  "startsWith s p = (take (length p) s = p)"

fun includesStr :: "string \<Rightarrow> string \<Rightarrow> bool" where
  "includesStr [] p = (p = [])"
| "includesStr (c # cs) p = (startsWith (c # cs) p \<or> includesStr cs p)"

text \<open>
  \<^verbatim>\<open>logout\<close>, on the store and the page it leaves for: \<^verbatim>\<open>user\<close> and \<^verbatim>\<open>token\<close> are removed,
  then every key that starts with \<^verbatim>\<open>exam_\<close>.
\<close>

definition logoutStorage :: "storage \<Rightarrow> storage" where
  "logoutStorage st =
     (\<lambda>k. if startsWith k ''exam_'' then None
          else (removeItem ''token'' (removeItem ''user'' st)) k)"

definition loginPath :: "string \<Rightarrow> string" where
  "loginPath currentPath =
     (if includesStr currentPath ''/admin'' then ''/admin/login''
      else if includesStr currentPath ''/faculty'' then ''/faculty/login''
      else ''/login'')"

definition logout :: "string \<Rightarrow> storage \<Rightarrow> storage \<times> string" where
  "logout currentPath st = (logoutStorage st, loginPath currentPath)"

subsection \<open>Sequences of operations\<close>

text \<open>What the student can do to the answers: type or pick an answer, go forward, go back.\<close>

datatype action = AnswerChange string | Next | Previous

fun act :: "world \<Rightarrow> action \<Rightarrow> world" where
  "act w (AnswerChange a) = answerChange a w"
| "act w Next = handleNext w"
| "act w Previous = handlePrevious w"

text \<open>
  The component has no operation that takes a question index: an answer always goes to the
  current question. \<open>setAnswer i v\<close> is the student walking to question \<open>i\<close> with the
  two navigation buttons and answering there.
\<close>

definition goto :: "nat \<Rightarrow> world \<Rightarrow> world" where
  "goto i w =
     (if currentQuestionIndex w < i
      then (handleNext ^^ (i - currentQuestionIndex w)) w
      else (handlePrevious ^^ (currentQuestionIndex w - i)) w)"

definition setAnswer :: "nat \<Rightarrow> string \<Rightarrow> world \<Rightarrow> world" where
  "setAnswer i v w = answerChange v (goto i w)"

definition setAnswers :: "(nat \<times> string) list \<Rightarrow> world \<Rightarrow> world" where
  "setAnswers calls w = foldl (\<lambda>w' (i, v). setAnswer i v w') w calls"

text \<open>
  The specification's reading of a call sequence: the value most recently set for \<open>i\<close>, or the
  empty default.
\<close>

definition mostRecent :: "(nat \<times> string) list \<Rightarrow> nat \<Rightarrow> string" where
  "mostRecent calls i = (case map_of (rev calls) i of None \<Rightarrow> [] | Some v \<Rightarrow> v)"

text \<open>The questions of the paper that have no entry in the answer list.\<close>

definition unanswered :: "ExamPaper \<Rightarrow> world \<Rightarrow> nat list" where
  "unanswered p w =
     filter (\<lambda>i. find (\<lambda>a. questionIndex a = i) (answers w) = None) [0..<length (questions p)]"

text \<open>An answer list with one entry per question index at most, each for a question of the paper.\<close>

definition wellFormed :: "nat \<Rightarrow> Answer list \<Rightarrow> bool" where
  "wellFormed n as = (distinct (map questionIndex as) \<and> list_all (\<lambda>a. questionIndex a < n) as)"

text \<open>
  The specification's countdown: the deadline is the start time plus the duration, and the
  remaining whole seconds are recomputed from the deadline and the clock.
\<close>

definition specRemaining :: "ExamPaper \<Rightarrow> world \<Rightarrow> int" where
  "specRemaining p w =
     max 0 ((int (startTime w) + duration p * 60000 - int (clock w)) div 1000)"

text \<open>
  What can happen to a mounted session apart from a successful submission and a logout: an
  answer or a navigation step, a press of the submit button, a firing of the interval, a failed
  submission, the passing of time, the unmount.
\<close>

datatype event = Act action | Submit bool | Tick bool | Failure submitError | Elapse nat | Unmount

fun step :: "world \<Rightarrow> event \<Rightarrow> world" where
  "step w (Act a) = act w a"
| "step w (Submit c) = clickSubmit c w"
| "step w (Tick c) = tick c w"
| "step w (Failure e) = onError e w"
| "step w (Elapse ms) = elapse ms w"
| "step w Unmount = unmount w"

text \<open>The keys the component writes for one attempt.\<close>

definition attemptKeys :: "string \<Rightarrow> string list" where
  "attemptKeys i = [answersKey i, questionIndexKey i, timeLeftKey i, startTimeKey i]"

text \<open>The two failures \<^verbatim>\<open>onError\<close> singles out.\<close>

definition isUnauthorized :: "submitError \<Rightarrow> bool" where
  "isUnauthorized e = (case e of None \<Rightarrow> False | Some r \<Rightarrow> status r = 401)"

definition isDuplicate :: "submitError \<Rightarrow> bool" where
  "isDuplicate e =
     (case e of None \<Rightarrow> False | Some r \<Rightarrow> status r = 400 \<and> message r = Some alreadySubmitted)"

subsection \<open>Sample data\<close>

definition demoQuestion :: "string \<Rightarrow> Question" where
  "demoQuestion i = \<lparr>q_id = i, q_type = Mcq, q_marks = 1\<rparr>"

definition onePaper :: ExamPaper where
  "onePaper = \<lparr>p_id = ''p1'', duration = 1, questions = [demoQuestion ''q0'']\<rparr>"

definition threePaper :: ExamPaper where
  "threePaper = \<lparr>p_id = ''p3'', duration = 30,
     questions = [demoQuestion ''q0'', demoQuestion ''q1'', demoQuestion ''q2'']\<rparr>"

text \<open>
  The session of a logged-in student for exam \<^verbatim>\<open>e1\<close>, opened at time \<open>now\<close> over the store
  \<open>st\<close>, once the paper has arrived; where the session does not start, the first render.
\<close>

definition session :: "nat \<Rightarrow> storage \<Rightarrow> ExamPaper \<Rightarrow> world" where
  "session now st p =
     (case openSession ''e1'' now st p of
        Inr w \<Rightarrow> w
      | Inl e \<Rightarrow> initial ''e1'' True now st)"

text \<open>A session opened at time 0 with an empty store.\<close>

definition fresh :: "ExamPaper \<Rightarrow> world" where
  "fresh p = session 0 Map.empty p"

text \<open>The store an interrupted session of \<^verbatim>\<open>e1\<close> left behind: started at time 0, one answer.\<close>

definition resumeStore :: storage where
  "resumeStore =
     [answersKey ''e1'' \<mapsto>
        AnswersJson [\<lparr>questionIndex = 0, selectedOption = ''A'', question = ''q0''\<rparr>],
      questionIndexKey ''e1'' \<mapsto> NumText 0,
      timeLeftKey ''e1'' \<mapsto> NumText 60,
      startTimeKey ''e1'' \<mapsto> DateText 0]"

text \<open>The one-question paper answered and submitted by hand; the call is in flight.\<close>

definition submittedOne :: world where
  "submittedOne = clickSubmit False (answerChange ''A'' (fresh onePaper))"

text \<open>A store that also holds keys of another attempt and keys that are not the component's.\<close>

definition twoAttempts :: storage where
  "twoAttempts =
     [answersKey ''e2'' \<mapsto> AnswersJson [],
      questionIndexKey ''e2'' \<mapsto> NumText 1,
      ''token'' \<mapsto> RawText ''t'',
      ''theme'' \<mapsto> RawText ''dark'']"

definition resumedTwo :: world where
  "resumedTwo =
     clickSubmit False (answerChange ''A'' (session 0 twoAttempts onePaper))"

text \<open>
  The one-question paper answered, the submit button pressed in the last second (no dialog:
  every question is answered), the call still in flight; once in a fresh session and once in a
  session resumed from \<open>resumeStore\<close>.
\<close>

definition lastSecondSubmit :: world where
  "lastSecondSubmit =
     clickSubmit False (ticks (replicate 59 False) (answerChange ''A'' (fresh onePaper)))"

definition resumedLastSecondSubmit :: world where
  "resumedLastSecondSubmit =
     clickSubmit False
       (ticks (replicate 59 False) (session 0 resumeStore onePaper))"

section \<open>Properties\<close>

lemmas model_defs = fresh_def session_def openSession_def loaded_def renders_def
  timerEffect_def mount_def initial_def restoreEffect_def restoreAnswers_def restoreIndex_def
  saveEffect_def answerChange_def handleAnswerChange_def handleNext_def handlePrevious_def
  threePaper_def onePaper_def demoQuestion_def setItem_def render_def

subsection \<open>What mounting and loading leave in place\<close>

lemma saveEffect_fields [simp]:
  "answers (saveEffect w) = answers w" "examPaper (saveEffect w) = examPaper w"
  "examId (saveEffect w) = examId w" "currentQuestionIndex (saveEffect w) = currentQuestionIndex w"
  "isSubmitting (saveEffect w) = isSubmitting w" "user (saveEffect w) = user w"
  "timer (saveEffect w) = timer w" "timeLeft (saveEffect w) = timeLeft w"
  "inFlight (saveEffect w) = inFlight w" "effects (saveEffect w) = effects w"
  "expiryCalls (saveEffect w) = expiryCalls w" "startTime (saveEffect w) = startTime w"
  "clock (saveEffect w) = clock w"
  by (simp_all add: saveEffect_def)

lemma saveEffect_store:
  "localStorage (saveEffect w) (answersKey (examId w)) = Some (AnswersJson (answers w))"
  by (simp add: saveEffect_def setItem_def answersKey_def questionIndexKey_def examKey_def)

lemma restoreEffect_Inr:
  assumes "restoreEffect w = Inr w'"
  shows "\<exists>as k. w' = w\<lparr>answers := as, currentQuestionIndex := k\<rparr>"
  using assms by (auto simp: restoreEffect_def split: sum.splits)

lemma initial_fields [simp]:
  "timeLeft (initial i u now st) = 0" "timer (initial i u now st) = None"
  "expiryCalls (initial i u now st) = 0" "isSubmitting (initial i u now st) = False"
  "examPaper (initial i u now st) = None" "examId (initial i u now st) = i"
  "user (initial i u now st) = u" "clock (initial i u now st) = now"
  "startTime (initial i u now st) = now" "inFlight (initial i u now st) = 0"
  "effects (initial i True now st) = []" "answers (initial i u now st) = []"
  "currentQuestionIndex (initial i u now st) = 0" "localStorage (initial i u now st) = st"
  by (simp_all add: initial_def)

lemma mount_Inr:
  assumes "mount i u now st = Inr w"
  shows "timeLeft w = 0 \<and> timer w = None \<and> expiryCalls w = 0 \<and> \<not> isSubmitting w
     \<and> examPaper w = None \<and> examId w = i \<and> user w = u \<and> clock w = now
     \<and> startTime w = now \<and> inFlight w = 0 \<and> effects w = effects (initial i u now st)"
proof -
  from assms obtain w' where r: "restoreEffect (initial i u now st) = Inr w'" and w: "w = saveEffect w'"
    by (auto simp: mount_def split: sum.splits)
  from restoreEffect_Inr[OF r] obtain as k
    where "w' = (initial i u now st)\<lparr>answers := as, currentQuestionIndex := k\<rparr>" by blast
  with w show ?thesis by simp
qed

lemma mount_empty:
  "mount i u now Map.empty = Inr (saveEffect (initial i u now Map.empty))"
  by (simp add: mount_def restoreEffect_def restoreAnswers_def restoreIndex_def)
     (simp add: initial_def)

lemma mount_unsaved:
  assumes "st (answersKey i) = None" "st (questionIndexKey i) = None"
  shows "mount i u now st = Inr (saveEffect (initial i u now st))"
  using assms
  by (simp add: mount_def restoreEffect_def restoreAnswers_def restoreIndex_def)
     (simp add: initial_def)


lemma timerEffect_fields [simp]:
  "expiryCalls (timerEffect w) = expiryCalls w" "isSubmitting (timerEffect w) = isSubmitting w"
  "examPaper (timerEffect w) = examPaper w" "examId (timerEffect w) = examId w"
  "user (timerEffect w) = user w" "clock (timerEffect w) = clock w"
  "startTime (timerEffect w) = startTime w" "inFlight (timerEffect w) = inFlight w"
  "effects (timerEffect w) = effects w" "answers (timerEffect w) = answers w"
  "currentQuestionIndex (timerEffect w) = currentQuestionIndex w"
  by (simp_all add: timerEffect_def split: option.splits)

lemma timerEffect_timer:
  assumes "examPaper w = Some p" "duration p \<noteq> 0"
  shows "timeLeft (timerEffect w) = duration p * 60"
    and "timer (timerEffect w) = Some (render w)"
    and "localStorage (timerEffect w) (startTimeKey (examId w)) = Some (DateText (startTime w))"
    and "localStorage (timerEffect w) (timeLeftKey (examId w)) = Some (NumText (duration p * 60))"
  using assms
  by (simp_all add: timerEffect_def setItem_def startTimeKey_def timeLeftKey_def examKey_def)

lemma loaded_Inr:
  "loaded p w = Inr w' \<longleftrightarrow>
     currentQuestionIndex w < length (questions p) \<and> w' = timerEffect (w\<lparr>examPaper := Some p\<rparr>)"
  by (auto simp: loaded_def renders_def)

lemma fresh_world:
  assumes "questions p \<noteq> []"
  shows "openSession ''e1'' 0 Map.empty p = Inr (fresh p)"
    and "fresh p
       = timerEffect ((saveEffect (initial ''e1'' True 0 Map.empty))\<lparr>examPaper := Some p\<rparr>)"
  using assms
  by (simp_all add: fresh_def session_def openSession_def mount_empty loaded_def renders_def)

lemma fresh_fields:
  assumes "questions p \<noteq> []"
  shows "examPaper (fresh p) = Some p" "answers (fresh p) = []" "examId (fresh p) = ''e1''"
    and "user (fresh p)" "\<not> isSubmitting (fresh p)" "expiryCalls (fresh p) = 0"
    and "inFlight (fresh p) = 0" "effects (fresh p) = []" "clock (fresh p) = 0"
    and "startTime (fresh p) = 0" "currentQuestionIndex (fresh p) = 0"
  by (simp_all add: fresh_world(2)[OF assms])

lemma fresh_timer:
  assumes "questions p \<noteq> []" "duration p \<noteq> 0"
  shows "timeLeft (fresh p) = duration p * 60"
    and "timer (fresh p)
       = Some \<lparr>v_answers = [], v_isSubmitting = False, v_user = True, v_examPaper = Some p\<rparr>"
  using assms(2)
  by (simp_all add: fresh_world(2)[OF assms(1)] timerEffect_timer render_def)

lemma sample_papers [simp]:
  "questions onePaper \<noteq> []" "duration onePaper = 1" "length (questions onePaper) = 1"
  "questions threePaper \<noteq> []" "duration threePaper = 30" "length (questions threePaper) = 3"
  by (simp_all add: onePaper_def threePaper_def)

subsection \<open>The answer list\<close>

lemma findIndex_None: "findIndex P xs = None \<longleftrightarrow> (\<forall>x\<in>set xs. \<not> P x)"
  by (induction xs) (auto split: option.splits)

lemma findIndex_Some:
  "findIndex P xs = Some i \<Longrightarrow> i < length xs \<and> P (xs ! i) \<and> (\<forall>j<i. \<not> P (xs ! j))"
proof (induction xs arbitrary: i)
  case Nil
  then show ?case by simp
next
  case (Cons x xs)
  show ?case
  proof (cases "P x")
    case True
    with Cons.prems show ?thesis by simp
  next
    case False
    with Cons.prems obtain k where k: "findIndex P xs = Some k" "i = Suc k"
      by (auto split: option.splits)
    from Cons.IH[OF k(1)] False k(2) show ?thesis
      by (auto simp: less_Suc_eq_0_disj)
  qed
qed

lemma find_update_first:
  "findIndex P xs = Some i \<Longrightarrow> P e \<Longrightarrow> find P (xs[i := e]) = Some e"
proof (induction xs arbitrary: i)
  case Nil
  then show ?case by simp
next
  case (Cons x xs)
  then show ?case by (cases i) (auto split: option.splits if_splits)
qed

lemma find_update_other:
  "i < length xs \<Longrightarrow> \<not> Q e \<Longrightarrow> \<not> Q (xs ! i) \<Longrightarrow> find Q (xs[i := e]) = find Q xs"
proof (induction xs arbitrary: i)
  case Nil
  then show ?case by simp
next
  case (Cons x xs)
  then show ?case by (cases i) auto
qed

lemma find_snoc:
  "find P (xs @ [e]) = (case find P xs of None \<Rightarrow> (if P e then Some e else None) | Some x \<Rightarrow> Some x)"
  by (induction xs) auto

lemma find_None_iff_findIndex: "find P xs = None \<longleftrightarrow> findIndex P xs = None"
  by (auto simp: find_None_iff findIndex_None)

lemma handleAnswerChange_Inr:
  "examPaper w = Some p \<Longrightarrow> currentQuestionIndex w < length (questions p) \<Longrightarrow>
   \<exists>w'. handleAnswerChange a w = Inr w' \<and> examPaper w' = Some p \<and> examId w' = examId w
      \<and> currentQuestionIndex w' = currentQuestionIndex w"
  by (auto simp: handleAnswerChange_def Let_def split: option.splits)


lemma handleNext_fields [simp]:
  "answers (handleNext w) = answers w" "examPaper (handleNext w) = examPaper w"
  "examId (handleNext w) = examId w" "isSubmitting (handleNext w) = isSubmitting w"
  "user (handleNext w) = user w"
  by (simp_all add: handleNext_def split: option.splits)

lemma handlePrevious_fields [simp]:
  "answers (handlePrevious w) = answers w" "examPaper (handlePrevious w) = examPaper w"
  "examId (handlePrevious w) = examId w" "isSubmitting (handlePrevious w) = isSubmitting w"
  "user (handlePrevious w) = user w"
  by (simp_all add: handlePrevious_def)

lemma handleNext_pow:
  "answers ((handleNext ^^ k) w) = answers w \<and> examPaper ((handleNext ^^ k) w) = examPaper w
   \<and> examId ((handleNext ^^ k) w) = examId w \<and> isSubmitting ((handleNext ^^ k) w) = isSubmitting w
   \<and> user ((handleNext ^^ k) w) = user w"
  by (induction k) simp_all

lemma handlePrevious_pow:
  "answers ((handlePrevious ^^ k) w) = answers w \<and> examPaper ((handlePrevious ^^ k) w) = examPaper w
   \<and> examId ((handlePrevious ^^ k) w) = examId w \<and> isSubmitting ((handlePrevious ^^ k) w) = isSubmitting w
   \<and> user ((handlePrevious ^^ k) w) = user w"
  by (induction k) simp_all

lemma handleNext_step:
  "examPaper w = Some p \<Longrightarrow> Suc (currentQuestionIndex w) < length (questions p) \<Longrightarrow>
   currentQuestionIndex (handleNext w) = Suc (currentQuestionIndex w)"
  by (simp add: handleNext_def)

lemma handlePrevious_step:
  "0 < currentQuestionIndex w \<Longrightarrow>
   currentQuestionIndex (handlePrevious w) = currentQuestionIndex w - 1"
  by (simp add: handlePrevious_def)

lemma handleNext_index:
  "examPaper w = Some p \<Longrightarrow> currentQuestionIndex w + k < length (questions p) \<Longrightarrow>
   currentQuestionIndex ((handleNext ^^ k) w) = currentQuestionIndex w + k"
proof (induction k)
  case 0
  then show ?case by simp
next
  case (Suc k)
  then have ih: "currentQuestionIndex ((handleNext ^^ k) w) = currentQuestionIndex w + k"
    by simp
  have ep: "examPaper ((handleNext ^^ k) w) = Some p"
    using Suc.prems(1) handleNext_pow[of k w] by simp
  show ?case
    using ih ep Suc.prems(2) handleNext_step[of "(handleNext ^^ k) w" p] by simp
qed

lemma handlePrevious_index:
  "k \<le> currentQuestionIndex w \<Longrightarrow>
   currentQuestionIndex ((handlePrevious ^^ k) w) = currentQuestionIndex w - k"
proof (induction k)
  case 0
  then show ?case by simp
next
  case (Suc k)
  then have ih: "currentQuestionIndex ((handlePrevious ^^ k) w) = currentQuestionIndex w - k"
    by simp
  show ?case
    using ih Suc.prems handlePrevious_step[of "(handlePrevious ^^ k) w"] by simp
qed

lemma goto_fields [simp]:
  "answers (goto i w) = answers w" "examPaper (goto i w) = examPaper w"
  "examId (goto i w) = examId w" "isSubmitting (goto i w) = isSubmitting w"
  "user (goto i w) = user w"
  using handleNext_pow handlePrevious_pow by (simp_all add: goto_def)

lemma goto_index:
  "examPaper w = Some p \<Longrightarrow> i < length (questions p) \<Longrightarrow> currentQuestionIndex (goto i w) = i"
  by (simp add: goto_def handleNext_index handlePrevious_index)


lemma answerChange_answers:
  assumes "examPaper w = Some p" "currentQuestionIndex w < length (questions p)"
  shows "answers (answerChange a w) =
     (let entry = \<lparr>questionIndex = currentQuestionIndex w, selectedOption = a,
                    question = q_id (questions p ! currentQuestionIndex w)\<rparr>
      in case findIndex (\<lambda>x. questionIndex x = currentQuestionIndex w) (answers w) of
           Some i \<Rightarrow> (answers w)[i := entry]
         | None \<Rightarrow> answers w @ [entry])"
  using assms
  by (simp add: answerChange_def handleAnswerChange_def Let_def split: option.splits)

lemma answerChange_fields [simp]:
  "examPaper (answerChange a w) = examPaper w" "examId (answerChange a w) = examId w"
  "currentQuestionIndex (answerChange a w) = currentQuestionIndex w"
  "isSubmitting (answerChange a w) = isSubmitting w" "user (answerChange a w) = user w"
  by (simp_all add: answerChange_def handleAnswerChange_def Let_def split: option.splits)

lemma answerChange_store:
  assumes "examPaper w = Some p" "currentQuestionIndex w < length (questions p)"
  shows "localStorage (answerChange a w) (answersKey (examId w))
           = Some (AnswersJson (answers (answerChange a w)))"
proof -
  obtain w' where w': "handleAnswerChange a w = Inr w'" "examId w' = examId w"
    using handleAnswerChange_Inr[OF assms, of a] by blast
  then show ?thesis
    using saveEffect_store[of w'] by (simp add: answerChange_def)
qed

lemma getAnswer_answerChange_same:
  assumes "examPaper w = Some p" "currentQuestionIndex w < length (questions p)"
  shows "getAnswer (currentQuestionIndex w) (answerChange a w) = a"
proof (cases "findIndex (\<lambda>x. questionIndex x = currentQuestionIndex w) (answers w)")
  case None
  then have "find (\<lambda>x. questionIndex x = currentQuestionIndex w) (answers w) = None"
    by (simp add: find_None_iff_findIndex)
  with None show ?thesis
    using assms by (simp add: getAnswer_def answerChange_answers find_snoc)
next
  case (Some i)
  then show ?thesis
    using assms by (simp add: getAnswer_def answerChange_answers find_update_first)
qed

lemma getAnswer_answerChange_other:
  assumes "i \<noteq> currentQuestionIndex w"
  shows "getAnswer i (answerChange a w) = getAnswer i w"
proof (cases "handleAnswerChange a w")
  case (Inl e)
  then show ?thesis by (simp add: answerChange_def)
next
  case (Inr w')
  then obtain p where p: "examPaper w = Some p" "currentQuestionIndex w < length (questions p)"
    by (auto simp: handleAnswerChange_def split: option.splits if_splits)
  show ?thesis
  proof (cases "findIndex (\<lambda>x. questionIndex x = currentQuestionIndex w) (answers w)")
    case None
    then show ?thesis
      using assms p by (simp add: getAnswer_def answerChange_answers find_snoc split: option.splits)
  next
    case (Some k)
    from findIndex_Some[OF Some] have "k < length (answers w)"
      "questionIndex (answers w ! k) = currentQuestionIndex w" by simp_all
    with Some show ?thesis
      using assms p by (simp add: getAnswer_def answerChange_answers find_update_other)
  qed
qed


lemma answerChange_wellFormed:
  assumes "wellFormed n (answers w)" "examPaper w = Some p" "n = length (questions p)"
  shows "wellFormed n (answers (answerChange a w))"
proof (cases "currentQuestionIndex w < length (questions p)")
  case False
  then show ?thesis
    using assms by (simp add: answerChange_def handleAnswerChange_def)
next
  case True
  show ?thesis
  proof (cases "findIndex (\<lambda>x. questionIndex x = currentQuestionIndex w) (answers w)")
    case None
    then have "currentQuestionIndex w \<notin> questionIndex ` set (answers w)"
      by (auto simp: findIndex_None)
    with None True assms show ?thesis
      by (simp add: answerChange_answers wellFormed_def)
  next
    case (Some k)
    from findIndex_Some[OF Some] have k: "k < length (answers w)"
      "questionIndex (answers w ! k) = currentQuestionIndex w" by simp_all
    let ?e = "\<lparr>questionIndex = currentQuestionIndex w, selectedOption = a,
               question = q_id (questions p ! currentQuestionIndex w)\<rparr>"
    have m: "map questionIndex ((answers w)[k := ?e]) = map questionIndex (answers w)"
      using k by (simp add: map_update list_update_same_conv)
    have "list_all (\<lambda>a. questionIndex a < n) ((answers w)[k := ?e])"
      using assms True k unfolding wellFormed_def list_all_iff
      by (auto dest!: subsetD[OF set_update_subset_insert])
    with m Some True assms show ?thesis
      by (simp add: answerChange_answers wellFormed_def)
  qed
qed


lemma answerChange_distinct:
  assumes "distinct (map questionIndex (answers w))"
  shows "distinct (map questionIndex (answers (answerChange a w)))"
proof (cases "handleAnswerChange a w")
  case (Inl e)
  then show ?thesis using assms by (simp add: answerChange_def)
next
  case (Inr w')
  then obtain p where p: "examPaper w = Some p" "currentQuestionIndex w < length (questions p)"
    by (auto simp: handleAnswerChange_def split: option.splits if_splits)
  show ?thesis
  proof (cases "findIndex (\<lambda>x. questionIndex x = currentQuestionIndex w) (answers w)")
    case None
    then have "currentQuestionIndex w \<notin> questionIndex ` set (answers w)"
      by (auto simp: findIndex_None)
    with None p assms show ?thesis
      by (simp add: answerChange_answers)
  next
    case (Some k)
    from findIndex_Some[OF Some] have k: "k < length (answers w)"
      "questionIndex (answers w ! k) = currentQuestionIndex w" by simp_all
    then have "map questionIndex ((answers w)[k := \<lparr>questionIndex = currentQuestionIndex w,
        selectedOption = a, question = q_id (questions p ! currentQuestionIndex w)\<rparr>])
        = map questionIndex (answers w)"
      by (simp add: map_update list_update_same_conv)
    with Some p assms show ?thesis
      by (simp add: answerChange_answers)
  qed
qed

lemma act_distinct:
  "distinct (map questionIndex (answers w)) \<Longrightarrow> distinct (map questionIndex (answers (act w x)))"
  by (cases x) (simp_all add: answerChange_distinct)

lemma run_distinct:
  "distinct (map questionIndex (answers w)) \<Longrightarrow>
   distinct (map questionIndex (answers (foldl act w xs)))"
  by (induction xs arbitrary: w) (simp_all add: act_distinct)

text \<open>
  Claim C10. Starting from the empty answer list, after any sequence of answer changes and
  navigation steps the answer list has at most one entry per question index: the indices are
  pairwise distinct, the length of the list (the count behind the progress bar and the
  unanswered-question check) is the number of distinct answered indices, and the payload built
  from it carries no index twice.
\<close>

theorem answers_one_entry_per_question:
  assumes "answers w0 = []"
  shows "distinct (map questionIndex (answers (foldl act w0 acts)))
     \<and> length (answers (foldl act w0 acts)) = card (questionIndex ` set (answers (foldl act w0 acts)))
     \<and> distinct (map fst (sp_answers (payload (render (foldl act w0 acts)) p (foldl act w0 acts))))"
proof -
  let ?w = "foldl act w0 acts"
  have d: "distinct (map questionIndex (answers ?w))"
    using assms run_distinct[of w0 acts] by simp
  have "card (questionIndex ` set (answers ?w)) = length (map questionIndex (answers ?w))"
    using distinct_card[OF d] by simp
  moreover have "map fst (sp_answers (payload (render ?w) p ?w)) = map questionIndex (answers ?w)"
    by (simp add: payload_def render_def comp_def)
  ultimately show ?thesis using d by simp
qed

theorem answers_one_entry_per_question_witness:
  "answers (fresh threePaper) = []
   \<and> map questionIndex (answers (foldl act (fresh threePaper)
         [AnswerChange ''B'', AnswerChange ''C'', Next, AnswerChange ''A''])) = [0, 1]
   \<and> distinct (map questionIndex (answers (foldl act (fresh threePaper)
         [AnswerChange ''B'', AnswerChange ''C'', Next, AnswerChange ''A''])))
   \<and> length (answers (foldl act (fresh threePaper)
         [AnswerChange ''B'', AnswerChange ''C'', Next, AnswerChange ''A'']))
       = card (questionIndex ` set (answers (foldl act (fresh threePaper)
         [AnswerChange ''B'', AnswerChange ''C'', Next, AnswerChange ''A''])))"
proof -
  have h: "answers (fresh threePaper) = []" by (simp add: fresh_fields)
  have e: "map questionIndex (answers (foldl act (fresh threePaper)
         [AnswerChange ''B'', AnswerChange ''C'', Next, AnswerChange ''A''])) = [0, 1]"
    by (simp add: model_defs)
  show ?thesis
    using h e answers_one_entry_per_question[OF h,
        of "[AnswerChange ''B'', AnswerChange ''C'', Next, AnswerChange ''A'']" threePaper]
    by simp
qed

lemma setAnswer_fields [simp]:
  "examPaper (setAnswer j v w) = examPaper w" "examId (setAnswer j v w) = examId w"
  by (simp_all add: setAnswer_def)

lemma setAnswers_snoc: "setAnswers (calls @ [(j, v)]) w = setAnswer j v (setAnswers calls w)"
  by (simp add: setAnswers_def)

lemma setAnswers_fields [simp]:
  "examPaper (setAnswers calls w) = examPaper w \<and> examId (setAnswers calls w) = examId w"
proof (induction calls rule: rev_induct)
  case Nil
  then show ?case by (simp add: setAnswers_def)
next
  case (snoc c calls)
  then show ?case by (cases c) (simp add: setAnswers_snoc)
qed

lemma getAnswer_setAnswer_same:
  assumes "examPaper w = Some p" "j < length (questions p)"
  shows "getAnswer j (setAnswer j v w) = v"
  using getAnswer_answerChange_same[of "goto j w" p v] assms
  by (simp add: setAnswer_def goto_index)

lemma getAnswer_setAnswer_other:
  assumes "examPaper w = Some p" "j < length (questions p)" "i \<noteq> j"
  shows "getAnswer i (setAnswer j v w) = getAnswer i w"
proof -
  have "getAnswer i (answerChange v (goto j w)) = getAnswer i (goto j w)"
    using assms by (intro getAnswer_answerChange_other) (simp add: goto_index)
  then show ?thesis by (simp add: setAnswer_def getAnswer_def)
qed

lemma setAnswer_store:
  assumes "examPaper w = Some p" "j < length (questions p)"
  shows "localStorage (setAnswer j v w) (answersKey (examId w))
           = Some (AnswersJson (answers (setAnswer j v w)))"
  using answerChange_store[of "goto j w" p v] assms
  by (simp add: setAnswer_def goto_index)

lemma getAnswer_setAnswers:
  assumes "examPaper w = Some p" "list_all (\<lambda>(j, v). j < length (questions p)) calls"
  shows "getAnswer i (setAnswers calls w)
           = (case map_of (rev calls) i of None \<Rightarrow> getAnswer i w | Some v \<Rightarrow> v)"
  using assms(2)
proof (induction calls rule: rev_induct)
  case Nil
  then show ?case by (simp add: setAnswers_def)
next
  case (snoc c calls)
  obtain j v where c: "c = (j, v)" by (cases c)
  with snoc.prems have j: "j < length (questions p)" and rest: "list_all (\<lambda>(j, v). j < length (questions p)) calls"
    by simp_all
  have ep: "examPaper (setAnswers calls w) = Some p" using assms(1) by simp
  show ?case
  proof (cases "i = j")
    case True
    then show ?thesis
      using getAnswer_setAnswer_same[OF ep j, of v] c by (simp add: setAnswers_snoc)
  next
    case False
    then show ?thesis
      using getAnswer_setAnswer_other[OF ep j False, of v] snoc.IH[OF rest] c
      by (simp add: setAnswers_snoc)
  qed
qed

text \<open>
  Claim C3. For every sequence of \<open>setAnswer\<close> calls on questions of the paper, starting
  from the empty answer state: the value shown for question \<open>i\<close> is the one most recently
  set for \<open>i\<close> (the empty string if there was none); a further call for another question
  \<open>j\<close> leaves the value shown for \<open>i\<close> as it is; and after every call the store holds,
  under the answers key of the attempt, the serialised full answer list.
\<close>

theorem answer_store_last_write_wins:
  assumes "examPaper w0 = Some p" "answers w0 = []"
    and "list_all (\<lambda>(j, v). j < length (questions p)) calls"
  shows "getAnswer i (setAnswers calls w0) = mostRecent calls i
     \<and> (\<forall>j v. j < length (questions p) \<and> j \<noteq> i \<longrightarrow>
            getAnswer i (setAnswer j v (setAnswers calls w0)) = getAnswer i (setAnswers calls w0))
     \<and> (\<forall>j v. j < length (questions p) \<longrightarrow>
            localStorage (setAnswer j v (setAnswers calls w0)) (answersKey (examId w0))
              = Some (AnswersJson (answers (setAnswer j v (setAnswers calls w0)))))"
proof -
  have ep: "examPaper (setAnswers calls w0) = Some p" using assms(1) by simp
  have "getAnswer i w0 = []" using assms(2) by (simp add: getAnswer_def)
  then have 1: "getAnswer i (setAnswers calls w0) = mostRecent calls i"
    using getAnswer_setAnswers[OF assms(1,3), of i]
    by (simp add: mostRecent_def split: option.splits)
  have 2: "\<forall>j v. j < length (questions p) \<and> j \<noteq> i \<longrightarrow>
            getAnswer i (setAnswer j v (setAnswers calls w0)) = getAnswer i (setAnswers calls w0)"
    using getAnswer_setAnswer_other[OF ep] by auto
  have 3: "\<forall>j v. j < length (questions p) \<longrightarrow>
            localStorage (setAnswer j v (setAnswers calls w0)) (answersKey (examId w0))
              = Some (AnswersJson (answers (setAnswer j v (setAnswers calls w0))))"
    using setAnswer_store[OF ep] by simp
  from 1 2 3 show ?thesis by blast
qed

theorem answer_store_last_write_wins_witness:
  "examPaper (fresh threePaper) = Some threePaper \<and> answers (fresh threePaper) = []
   \<and> list_all (\<lambda>(j, v). j < length (questions threePaper)) [(0, ''B''), (1, ''A''), (0, ''C'')]
   \<and> getAnswer 0 (setAnswers [(0, ''B''), (1, ''A''), (0, ''C'')] (fresh threePaper)) = ''C''
   \<and> getAnswer 2 (setAnswers [(0, ''B''), (1, ''A''), (0, ''C'')] (fresh threePaper)) = []
   \<and> getAnswer 0 (setAnswer 2 ''D'' (setAnswers [(0, ''B''), (1, ''A''), (0, ''C'')] (fresh threePaper)))
       = ''C''
   \<and> localStorage (setAnswer 0 ''C'' (setAnswers [(0, ''B'')] (fresh threePaper))) (answersKey ''e1'')
       = Some (AnswersJson [\<lparr>questionIndex = 0, selectedOption = ''C'', question = ''q0''\<rparr>])"
proof -
  have p: "examPaper (fresh threePaper) = Some threePaper" by (simp add: fresh_fields)
  have a: "answers (fresh threePaper) = []" by (simp add: fresh_fields)
  have i: "examId (fresh threePaper) = ''e1''" by (simp add: fresh_fields)
  have n: "length (questions threePaper) = 3" by (simp add: threePaper_def)
  have l: "list_all (\<lambda>(j, v). j < length (questions threePaper)) [(0, ''B''), (1, ''A''), (0, ''C'')]"
    by (simp add: n)
  have l1: "list_all (\<lambda>(j, v). j < length (questions threePaper)) [(0, ''B'')]"
    by (simp add: n)
  have s: "answers (setAnswer 0 ''C'' (setAnswers [(0, ''B'')] (fresh threePaper)))
             = [\<lparr>questionIndex = 0, selectedOption = ''C'', question = ''q0''\<rparr>]"
    by (simp add: model_defs setAnswers_def setAnswer_def goto_def)
  show ?thesis
    using p a l i n s answer_store_last_write_wins[OF p a l, of 0]
      answer_store_last_write_wins[OF p a l, of 2]
      answer_store_last_write_wins[OF p a l1, of 1]
    by (simp add: mostRecent_def)
qed

subsection \<open>The countdown\<close>

lemma handleSubmit_fields [simp]:
  "timeLeft (handleSubmit v c w) = timeLeft w" "timer (handleSubmit v c w) = timer w"
  "expiryCalls (handleSubmit v c w) = expiryCalls w" "answers (handleSubmit v c w) = answers w"
  "localStorage (handleSubmit v c w) = localStorage w" "examPaper (handleSubmit v c w) = examPaper w"
  "examId (handleSubmit v c w) = examId w" "user (handleSubmit v c w) = user w"
  "clock (handleSubmit v c w) = clock w" "startTime (handleSubmit v c w) = startTime w"
  "currentQuestionIndex (handleSubmit v c w) = currentQuestionIndex w"
  by (simp_all add: handleSubmit_def submitNow_def split: option.splits)

lemma ticks_Nil [simp]: "ticks [] w = w"
  by (simp add: ticks_def)

lemma ticks_Cons [simp]: "ticks (c # cs) w = ticks cs (tick c w)"
  by (simp add: ticks_def)

lemma ticks_append: "ticks (cs @ ds) w = ticks ds (ticks cs w)"
  by (simp add: ticks_def)

lemma tick_stopped: "timer w = None \<Longrightarrow> tick c w = w"
  by (simp add: tick_def)

lemma ticks_stopped: "timer w = None \<Longrightarrow> ticks cs w = w"
  by (induction cs) (simp_all add: tick_stopped)

lemma tick_running:
  "timer w = Some v \<Longrightarrow> 1 < timeLeft w \<Longrightarrow> tick c w = w\<lparr>timeLeft := timeLeft w - 1\<rparr>"
  by (simp add: tick_def)

lemma tick_expiry:
  "timer w = Some v \<Longrightarrow> timeLeft w \<le> 1 \<Longrightarrow>
   tick c w = (handleSubmit v c (w\<lparr>timer := None, expiryCalls := expiryCalls w + 1\<rparr>))\<lparr>timeLeft := 0\<rparr>"
  by (simp add: tick_def)

text \<open>Before expiry a run of the interval only counts down.\<close>

lemma ticks_before_expiry:
  "timer w = Some v \<Longrightarrow> int (length cs) < timeLeft w \<Longrightarrow>
   ticks cs w = w\<lparr>timeLeft := timeLeft w - int (length cs)\<rparr>"
proof (induction cs arbitrary: w)
  case Nil
  then show ?case by simp
next
  case (Cons c cs)
  let ?w = "w\<lparr>timeLeft := timeLeft w - 1\<rparr>"
  from Cons.prems have t: "tick c w = ?w" by (simp add: tick_running)
  have "ticks cs ?w = ?w\<lparr>timeLeft := timeLeft ?w - int (length cs)\<rparr>"
    using Cons.prems by (intro Cons.IH) simp_all
  with t show ?case by simp
qed

text \<open>The firing at which the counter is at most one stops the interval and calls the handler.\<close>

lemma ticks_at_expiry:
  assumes "timer w = Some v" "1 \<le> timeLeft w" "int (length cs) + 1 = timeLeft w"
  shows "ticks (cs @ [c]) w =
     (handleSubmit v c (w\<lparr>timeLeft := 1, timer := None, expiryCalls := expiryCalls w + 1\<rparr>))\<lparr>timeLeft := 0\<rparr>"
proof -
  have "ticks cs w = w\<lparr>timeLeft := 1\<rparr>"
    using ticks_before_expiry[of w v cs] assms by simp
  then show ?thesis
    using assms(1) by (simp add: ticks_append tick_expiry[of _ v])
qed

lemma ticks_timeLeft:
  assumes "timer w = Some v" "1 \<le> timeLeft w"
  shows "timeLeft (ticks cs w) = max 0 (timeLeft w - int (length cs))
     \<and> expiryCalls (ticks cs w) = expiryCalls w + (if timeLeft w \<le> int (length cs) then 1 else 0)
     \<and> (timer (ticks cs w) = None) = (timeLeft w \<le> int (length cs))"
proof (cases "int (length cs) < timeLeft w")
  case True
  then show ?thesis
    using ticks_before_expiry[OF assms(1) True] assms(1) by simp
next
  case False
  define k where "k = nat (timeLeft w) - 1"
  have k: "int k + 1 = timeLeft w" "k < length cs"
    using assms(2) False by (simp_all add: k_def)
  define as where "as = take k cs"
  define b where "b = cs ! k"
  define ds where "ds = drop (Suc k) cs"
  have cs: "cs = (as @ [b]) @ ds"
    using k(2) by (simp add: as_def b_def ds_def id_take_nth_drop[symmetric])
  have la: "int (length as) + 1 = timeLeft w"
    using k by (simp add: as_def)
  let ?e = "(handleSubmit v b (w\<lparr>timeLeft := 1, timer := None, expiryCalls := expiryCalls w + 1\<rparr>))\<lparr>timeLeft := 0\<rparr>"
  have e: "ticks (as @ [b]) w = ?e"
    using ticks_at_expiry[OF assms la] .
  have "timer ?e = None" by simp
  then have "ticks ds ?e = ?e" by (rule ticks_stopped)
  then have "ticks cs w = ?e"
    using e by (simp add: ticks_append cs)
  then show ?thesis using False by simp
qed



subsection \<open>Expiry\<close>

text \<open>
  Claim C1, evaluated where it fails: one minute, one question, sixty ticks. The expiry branch
  calls the ordinary \<^verbatim>\<open>handleSubmit\<close>, which shows the confirmation dialog. If the user
  declines, nothing is submitted, and since the interval is cleared nothing is submitted later
  either. If the user accepts, the answer list that is sent is empty. The same happens when the
  question has been answered: the handler is the one of the render in which the timer started,
  where the answer list was empty, so the dialog is shown and the answer is not sent.
\<close>

theorem expiry_confirms_and_sends_no_entry:
  "openSession ''e1'' 0 Map.empty onePaper = Inr (fresh onePaper)
   \<and> effects (ticks (replicate 60 False) (fresh onePaper)) = [Confirm confirmText]
   \<and> \<not> isSubmitting (ticks (replicate 60 False) (fresh onePaper))
   \<and> inFlight (ticks (replicate 60 False) (fresh onePaper)) = 0
   \<and> timer (ticks (replicate 60 False) (fresh onePaper)) = None
   \<and> effects (ticks (replicate 600 False) (fresh onePaper)) = [Confirm confirmText]
   \<and> effects (ticks (replicate 60 True) (fresh onePaper))
       = [Confirm confirmText,
          Mutate \<lparr>sp_examPaper = ''p1'', sp_answers = [],
                  sp_startTime = 0, sp_endTime = 0, sp_isSubmitted = True\<rparr>]
   \<and> answers (answerChange ''A'' (fresh onePaper))
       = [\<lparr>questionIndex = 0, selectedOption = ''A'', question = ''q0''\<rparr>]
   \<and> effects (ticks (replicate 60 True) (answerChange ''A'' (fresh onePaper)))
       = [Confirm confirmText,
          Mutate \<lparr>sp_examPaper = ''p1'', sp_answers = [],
                  sp_startTime = 0, sp_endTime = 0, sp_isSubmitted = True\<rparr>]"
proof -
  have s: "openSession ''e1'' 0 Map.empty onePaper = Inr (fresh onePaper)"
    by (simp add: fresh_world)
  have r: "effects (ticks (replicate 60 False) (fresh onePaper)) = [Confirm confirmText]
   \<and> \<not> isSubmitting (ticks (replicate 60 False) (fresh onePaper))
   \<and> inFlight (ticks (replicate 60 False) (fresh onePaper)) = 0
   \<and> timer (ticks (replicate 60 False) (fresh onePaper)) = None
   \<and> effects (ticks (replicate 600 False) (fresh onePaper)) = [Confirm confirmText]
   \<and> effects (ticks (replicate 60 True) (fresh onePaper))
       = [Confirm confirmText,
          Mutate \<lparr>sp_examPaper = ''p1'', sp_answers = [],
                  sp_startTime = 0, sp_endTime = 0, sp_isSubmitted = True\<rparr>]
   \<and> answers (answerChange ''A'' (fresh onePaper))
       = [\<lparr>questionIndex = 0, selectedOption = ''A'', question = ''q0''\<rparr>]
   \<and> effects (ticks (replicate 60 True) (answerChange ''A'' (fresh onePaper)))
       = [Confirm confirmText,
          Mutate \<lparr>sp_examPaper = ''p1'', sp_answers = [],
                  sp_startTime = 0, sp_endTime = 0, sp_isSubmitted = True\<rparr>]"
    by code_simp
  from s r show ?thesis by simp
qed

subsection \<open>The start of the countdown, the deadline and resuming\<close>

lemma elapse_fields [simp]:
  "timeLeft (elapse ms w) = timeLeft w" "timer (elapse ms w) = timer w"
  by (simp_all add: elapse_def)

lemma tick_fields [simp]:
  "clock (tick c w) = clock w" "startTime (tick c w) = startTime w"
  by (simp_all add: tick_def split: option.splits)

text \<open>What a tick does to the counter and the interval depends on nothing but the two.\<close>

lemma tick_counter:
  "timeLeft (tick c w)
     = (case timer w of None \<Rightarrow> timeLeft w
        | Some v \<Rightarrow> if timeLeft w \<le> 1 then 0 else timeLeft w - 1)"
  "timer (tick c w)
     = (case timer w of None \<Rightarrow> None
        | Some v \<Rightarrow> if timeLeft w \<le> 1 then None else Some v)"
  by (simp_all add: tick_def split: option.splits)

lemma tick_counter_same:
  assumes "timeLeft w = timeLeft w'" "timer w = timer w'"
  shows "timeLeft (tick c w) = timeLeft (tick c w')" "timer (tick c w) = timer (tick c w')"
  using assms by (cases "timer w'"; simp add: tick_counter)+

lemma ticks_counter:
  "timeLeft w = timeLeft w' \<Longrightarrow> timer w = timer w' \<Longrightarrow>
   timeLeft (ticks cs w) = timeLeft (ticks cs w') \<and> timer (ticks cs w) = timer (ticks cs w')"
proof (induction cs arbitrary: w w')
  case Nil
  then show ?case by simp
next
  case (Cons c cs)
  have "timeLeft (ticks cs (tick c w)) = timeLeft (ticks cs (tick c w'))
      \<and> timer (ticks cs (tick c w)) = timer (ticks cs (tick c w'))"
    using Cons.prems by (intro Cons.IH tick_counter_same)
  then show ?case by simp
qed

text \<open>
  A tab suspended for the first 30 seconds of a one-minute exam: the first tick shows 59
  seconds, where a countdown recomputed from the deadline would show 30.
\<close>

theorem tick_ignores_deadline:
  "timeLeft (tick False (elapse 30000 (fresh onePaper))) = 59
   \<and> specRemaining onePaper (tick False (elapse 30000 (fresh onePaper))) = 30"
proof -
  have t: "timer (elapse 30000 (fresh onePaper))
             = Some \<lparr>v_answers = [], v_isSubmitting = False, v_user = True,
                     v_examPaper = Some onePaper\<rparr>"
    by (simp add: fresh_timer)
  have l: "timeLeft (elapse 30000 (fresh onePaper)) = 60"
    by (simp add: fresh_timer)
  have 1: "timeLeft (tick False (elapse 30000 (fresh onePaper))) = 59"
    using l by (simp add: tick_running[OF t])
  have c: "clock (elapse 30000 (fresh onePaper)) = 30000"
    "startTime (elapse 30000 (fresh onePaper)) = 0"
    by (simp_all add: elapse_def fresh_fields)
  have 2: "specRemaining onePaper (tick False (elapse 30000 (fresh onePaper))) = 30"
    by (simp add: specRemaining_def c)
  from 1 2 show ?thesis by simp
qed

text \<open>
  Claim C2, as amended. When the paper arrives and the page renders, the countdown starts:
  the counter is set to \<^verbatim>\<open>duration * 60\<close>, the interval is started, and the counter value and
  the start time are written to the store under the two timer keys of the attempt, no other
  key being touched; no deadline is computed. Every tick sets the counter to the previous
  value minus one (to zero when the previous value is at most one) whatever the clock says:
  after any time spent without ticks the same ticks give the same counter, so ticks missed
  during a suspension are not made up.
\<close>

theorem tick_decrements_previous_counter:
  assumes "timer w = Some v"
    and "currentQuestionIndex w0 < length (questions p)" "duration p \<noteq> 0"
  shows "timeLeft (tick c w) = (if timeLeft w \<le> 1 then 0 else timeLeft w - 1)
     \<and> timeLeft (tick c (elapse ms w)) = timeLeft (tick c w)
     \<and> timeLeft (ticks cs (elapse ms w)) = timeLeft (ticks cs w)
     \<and> (\<exists>w1. loaded p w0 = Inr w1
           \<and> timeLeft w1 = duration p * 60
           \<and> timer w1 = Some (render (w0\<lparr>examPaper := Some p\<rparr>))
           \<and> localStorage w1 (timeLeftKey (examId w0)) = Some (NumText (duration p * 60))
           \<and> localStorage w1 (startTimeKey (examId w0)) = Some (DateText (startTime w0))
           \<and> (\<forall>k. k \<noteq> timeLeftKey (examId w0) \<and> k \<noteq> startTimeKey (examId w0) \<longrightarrow>
                  localStorage w1 k = localStorage w0 k))"
proof -
  have 1: "timeLeft (tick c w) = (if timeLeft w \<le> 1 then 0 else timeLeft w - 1)"
    using assms(1) by (simp add: tick_counter)
  have 2: "timeLeft (tick c (elapse ms w)) = timeLeft (tick c w)"
    by (rule tick_counter_same) simp_all
  have 3: "timeLeft (ticks cs (elapse ms w)) = timeLeft (ticks cs w)"
    using ticks_counter[of "elapse ms w" w cs] by simp
  let ?s = "timerEffect (w0\<lparr>examPaper := Some p\<rparr>)"
  have l: "loaded p w0 = Inr ?s"
    using assms(2) by (simp add: loaded_Inr)
  have e: "examPaper (w0\<lparr>examPaper := Some p\<rparr>) = Some p" by simp
  have o: "\<forall>k. k \<noteq> timeLeftKey (examId w0) \<and> k \<noteq> startTimeKey (examId w0) \<longrightarrow>
             localStorage ?s k = localStorage w0 k"
    using assms(3) by (simp add: timerEffect_def setItem_def)
  have 4: "\<exists>w1. loaded p w0 = Inr w1
           \<and> timeLeft w1 = duration p * 60
           \<and> timer w1 = Some (render (w0\<lparr>examPaper := Some p\<rparr>))
           \<and> localStorage w1 (timeLeftKey (examId w0)) = Some (NumText (duration p * 60))
           \<and> localStorage w1 (startTimeKey (examId w0)) = Some (DateText (startTime w0))
           \<and> (\<forall>k. k \<noteq> timeLeftKey (examId w0) \<and> k \<noteq> startTimeKey (examId w0) \<longrightarrow>
                  localStorage w1 k = localStorage w0 k)"
    using l o timerEffect_timer[OF e assms(3)] by (intro exI[of _ ?s]) simp
  from 1 2 3 4 show ?thesis by blast
qed

theorem tick_decrements_previous_counter_witness:
  "timer (fresh onePaper) = Some \<lparr>v_answers = [], v_isSubmitting = False, v_user = True,
                                    v_examPaper = Some onePaper\<rparr>
   \<and> currentQuestionIndex (saveEffect (initial ''e1'' True 0 Map.empty)) < length (questions onePaper)
   \<and> duration onePaper \<noteq> 0
   \<and> timeLeft (fresh onePaper) = 60
   \<and> timeLeft (tick False (fresh onePaper)) = 59
   \<and> timeLeft (tick False (elapse 30000 (fresh onePaper))) = 59
   \<and> timeLeft (ticks (replicate 10 False) (elapse 30000 (fresh onePaper))) = 50
   \<and> loaded onePaper (saveEffect (initial ''e1'' True 0 Map.empty)) = Inr (fresh onePaper)
   \<and> localStorage (fresh onePaper) (timeLeftKey ''e1'') = Some (NumText 60)
   \<and> localStorage (fresh onePaper) (startTimeKey ''e1'') = Some (DateText 0)"
proof -
  let ?m = "saveEffect (initial ''e1'' True 0 Map.empty)"
  have t: "timer (fresh onePaper) = Some \<lparr>v_answers = [], v_isSubmitting = False, v_user = True,
                                    v_examPaper = Some onePaper\<rparr>"
    by (simp add: fresh_timer)
  have q: "currentQuestionIndex ?m < length (questions onePaper)" by simp
  have d: "duration onePaper \<noteq> 0" by simp
  have l: "timeLeft (fresh onePaper) = 60" by (simp add: fresh_timer)
  have f: "loaded onePaper ?m = Inr (fresh onePaper)"
    by (simp add: loaded_Inr fresh_world)
  have r: "timeLeft (ticks (replicate 10 False) (fresh onePaper)) = 50"
    using ticks_timeLeft[OF t, of "replicate 10 False"] l by simp
  show ?thesis
    using t q d l f r
      tick_decrements_previous_counter[OF t q d, of False 30000 "replicate 10 False"]
    by simp
qed




subsection \<open>Manual submission\<close>

lemma act_fields [simp]:
  "examPaper (act w x) = examPaper w" "examId (act w x) = examId w"
  "isSubmitting (act w x) = isSubmitting w" "user (act w x) = user w"
  by (cases x; simp)+

lemma run_fields [simp]:
  "examPaper (foldl act w xs) = examPaper w \<and> examId (foldl act w xs) = examId w
   \<and> isSubmitting (foldl act w xs) = isSubmitting w \<and> user (foldl act w xs) = user w"
  by (induction xs arbitrary: w) simp_all

lemma act_wellFormed:
  "wellFormed (length (questions p)) (answers w) \<Longrightarrow> examPaper w = Some p \<Longrightarrow>
   wellFormed (length (questions p)) (answers (act w x))"
  by (cases x) (simp_all add: answerChange_wellFormed)

lemma run_wellFormed:
  "wellFormed (length (questions p)) (answers w) \<Longrightarrow> examPaper w = Some p \<Longrightarrow>
   wellFormed (length (questions p)) (answers (foldl act w xs))"
  by (induction xs arbitrary: w) (simp_all add: act_wellFormed)

text \<open>A well-formed answer list as long as the paper answers every question.\<close>

lemma wellFormed_full:
  assumes "wellFormed n as" "n \<le> length as" "i < n"
  shows "find (\<lambda>a. questionIndex a = i) as \<noteq> None"
proof -
  have sub: "questionIndex ` set as \<subseteq> {..<n}"
    using assms(1) by (auto simp: wellFormed_def list_all_iff)
  have "card (questionIndex ` set as) = length as"
    using assms(1) distinct_card[of "map questionIndex as"] by (simp add: wellFormed_def)
  then have "card {..<n} \<le> card (questionIndex ` set as)"
    using assms(2) by simp
  with sub have "questionIndex ` set as = {..<n}"
    by (intro card_seteq) simp_all
  with assms(3) have "i \<in> questionIndex ` set as" by simp
  then show ?thesis by (auto simp: find_None_iff)
qed

lemma unanswered_short:
  assumes "wellFormed (length (questions p)) (answers w)" "unanswered p w \<noteq> []"
  shows "length (answers w) < length (questions p)"
proof (rule ccontr)
  assume "\<not> length (answers w) < length (questions p)"
  then have "length (questions p) \<le> length (answers w)" by simp
  then have "\<forall>i<length (questions p). find (\<lambda>a. questionIndex a = i) (answers w) \<noteq> None"
    using wellFormed_full[OF assms(1)] by blast
  then have "unanswered p w = []"
    by (simp add: unanswered_def filter_empty_conv)
  with assms(2) show False by simp
qed

text \<open>
  Claim C7. In a session that started from a well-formed answer list (the empty one in
  particular) and went through any sequence of answer changes and navigation steps, a press
  of the submit button while some question has no answer first shows the confirmation dialog.
  If the user declines, nothing but the dialog has happened: the state is unchanged,
  \<open>isSubmitting\<close> is still false and no submission call is issued. The call is issued only
  after the dialog, when the user accepts.
\<close>

theorem manual_submit_needs_confirmation:
  assumes "examPaper w0 = Some p" "wellFormed (length (questions p)) (answers w0)"
    and "user w0" "\<not> isSubmitting w0"
    and "w = foldl act w0 acts" "unanswered p w \<noteq> []"
  shows "clickSubmit False w = w\<lparr>effects := effects w @ [Confirm confirmText]\<rparr>
     \<and> isSubmitting (clickSubmit False w) = False
     \<and> inFlight (clickSubmit False w) = inFlight w
     \<and> clickSubmit True w
         = submitNow (render w) p (w\<lparr>effects := effects w @ [Confirm confirmText]\<rparr>)"
proof -
  have "wellFormed (length (questions p)) (answers w)"
    using assms(1,2,5) run_wellFormed by simp
  then have short: "length (answers w) < length (questions p)"
    using assms(6) by (rule unanswered_short)
  have f: "examPaper w = Some p" "user w" "\<not> isSubmitting w"
    using assms(1,3,4,5) by simp_all
  show ?thesis
    using short f by (simp add: clickSubmit_def handleSubmit_def render_def)
qed

theorem manual_submit_needs_confirmation_witness:
  "examPaper (fresh threePaper) = Some threePaper
   \<and> wellFormed (length (questions threePaper)) (answers (fresh threePaper))
   \<and> user (fresh threePaper) \<and> \<not> isSubmitting (fresh threePaper)
   \<and> unanswered threePaper
        (foldl act (fresh threePaper) [AnswerChange ''A'', Next, AnswerChange ''B'']) = [2]
   \<and> isSubmitting (clickSubmit False
        (foldl act (fresh threePaper) [AnswerChange ''A'', Next, AnswerChange ''B''])) = False
   \<and> effects (clickSubmit False
        (foldl act (fresh threePaper) [AnswerChange ''A'', Next, AnswerChange ''B'']))
       = [Confirm confirmText]
   \<and> inFlight (clickSubmit False
        (foldl act (fresh threePaper) [AnswerChange ''A'', Next, AnswerChange ''B''])) = 0"
proof -
  let ?w = "foldl act (fresh threePaper) [AnswerChange ''A'', Next, AnswerChange ''B'']"
  have p: "examPaper (fresh threePaper) = Some threePaper" by (simp add: fresh_fields)
  have a: "wellFormed (length (questions threePaper)) (answers (fresh threePaper))"
    by (simp add: fresh_fields wellFormed_def)
  have u: "user (fresh threePaper)" by (simp add: fresh_fields)
  have s: "\<not> isSubmitting (fresh threePaper)" by (simp add: fresh_fields)
  have un: "unanswered threePaper ?w = [2]"
    by (simp add: unanswered_def model_defs upt_rec)
  then have ne: "unanswered threePaper ?w \<noteq> []" by simp
  have e: "effects ?w = []" by (simp add: model_defs)
  have i: "inFlight ?w = 0" by (simp add: model_defs)
  show ?thesis
    using p a u s un e i manual_submit_needs_confirmation[OF p a u s refl ne]
    by simp
qed

text \<open>A press of the submit button while \<open>isSubmitting\<close> is set changes nothing.\<close>

lemma manual_resubmit_is_noop: "isSubmitting w \<Longrightarrow> clickSubmit c w = w"
  by (simp add: clickSubmit_def handleSubmit_def render_def)

text \<open>
  Claim C4, evaluated where it fails. The guard of \<^verbatim>\<open>handleSubmit\<close> makes a second press of
  the button a no-op (\<open>manual_resubmit_is_noop\<close>). The interval callback, however, calls
  the \<^verbatim>\<open>handleSubmit\<close> of the render in which the timer effect ran, where \<open>isSubmitting\<close>
  is false: when the counter expires while a manual submission is in flight, a second
  submission call is issued and two calls are outstanding. In the resumed session no dialog
  is shown before the second call.
\<close>

theorem expiry_resubmits_while_in_flight:
  "isSubmitting lastSecondSubmit \<and> inFlight lastSecondSubmit = 1
   \<and> timeLeft lastSecondSubmit = 1
   \<and> inFlight (tick True lastSecondSubmit) = 2
   \<and> effects (tick True lastSecondSubmit)
       = [Mutate \<lparr>sp_examPaper = ''p1'', sp_answers = [(0, ''A'')],
                  sp_startTime = 0, sp_endTime = 0, sp_isSubmitted = True\<rparr>,
          Confirm confirmText,
          Mutate \<lparr>sp_examPaper = ''p1'', sp_answers = [],
                  sp_startTime = 0, sp_endTime = 0, sp_isSubmitted = True\<rparr>]
   \<and> isSubmitting resumedLastSecondSubmit \<and> inFlight resumedLastSecondSubmit = 1
   \<and> inFlight (tick False resumedLastSecondSubmit) = 2
   \<and> effects (tick False resumedLastSecondSubmit)
       = [Mutate \<lparr>sp_examPaper = ''p1'', sp_answers = [(0, ''A'')],
                  sp_startTime = 0, sp_endTime = 0, sp_isSubmitted = True\<rparr>,
          Mutate \<lparr>sp_examPaper = ''p1'', sp_answers = [(0, ''A'')],
                  sp_startTime = 0, sp_endTime = 0, sp_isSubmitted = True\<rparr>]"
  by code_simp

subsection \<open>Submission failures\<close>

lemma submittedOne_effects:
  "effects submittedOne = [Mutate \<lparr>sp_examPaper = ''p1'', sp_answers = [(0, ''A'')],
      sp_startTime = 0, sp_endTime = 0, sp_isSubmitted = True\<rparr>]"
  by (simp add: submittedOne_def model_defs clickSubmit_def handleSubmit_def submitNow_def payload_def)

lemma submittedOne_fields:
  "isSubmitting submittedOne" "inFlight submittedOne = 1" "examId submittedOne = ''e1''"
  by (simp_all add: submittedOne_def model_defs clickSubmit_def handleSubmit_def submitNow_def payload_def)

text \<open>
  A failure that is not the duplicate-submission one and yet does not leave the user on the
  page: on status 401 the handler shows no notice and navigates to the login page.
\<close>

theorem unauthorized_failure_leaves_page:
  "effects (onError (Some \<lparr>status = 401, message = Some ''Unauthorized''\<rparr>) submittedOne)
     = [Mutate \<lparr>sp_examPaper = ''p1'', sp_answers = [(0, ''A'')],
          sp_startTime = 0, sp_endTime = 0, sp_isSubmitted = True\<rparr>,
        Navigate ''/login'' (Some ''/exam-panel/e1'')]"
  by (simp add: onError_def submittedOne_effects submittedOne_fields loginRedirect_def)

text \<open>
  Claim C8, as amended. \<^verbatim>\<open>onError\<close> tells three cases apart. The duplicate-submission
  failure (status 400 with the message of \<open>alreadySubmitted\<close>) gives an informational,
  non-destructive toast and a navigation to the dashboard after 2000 ms. The unauthorized
  failure (status 401) navigates to the login page with the return path. Every other failure
  leaves the user on the page with a destructive error toast. In all three \<open>isSubmitting\<close>
  is reset, so the submit button works again.
\<close>

theorem submission_failure_cases:
  "(isDuplicate e \<longrightarrow>
      effects (onError e w) = effects w @
        [Toast ''Already Submitted''
           ''You have already submitted this exam. Redirecting to dashboard...'' Default,
         NavigateAfter 2000 ''/dashboard''])
   \<and> (isUnauthorized e \<longrightarrow>
      effects (onError e w) = effects w @ [Navigate ''/login'' (Some (''/exam-panel/'' @ examId w))])
   \<and> (\<not> isDuplicate e \<and> \<not> isUnauthorized e \<longrightarrow>
      effects (onError e w) = effects w @ [Toast ''Error'' (errorMessage e) Destructive])
   \<and> \<not> isSubmitting (onError e w)
   \<and> inFlight (onError e w) = inFlight w - 1"
  by (cases e) (auto simp: onError_def isDuplicate_def isUnauthorized_def loginRedirect_def Let_def)

theorem submission_failure_cases_witness:
  "isDuplicate (Some \<lparr>status = 400, message = Some alreadySubmitted\<rparr>)
   \<and> effects (onError (Some \<lparr>status = 400, message = Some alreadySubmitted\<rparr>) submittedOne)
       = effects submittedOne @
         [Toast ''Already Submitted''
            ''You have already submitted this exam. Redirecting to dashboard...'' Default,
          NavigateAfter 2000 ''/dashboard'']
   \<and> isUnauthorized (Some \<lparr>status = 401, message = None\<rparr>)
   \<and> effects (onError (Some \<lparr>status = 401, message = None\<rparr>) submittedOne)
       = effects submittedOne @ [Navigate ''/login'' (Some ''/exam-panel/e1'')]
   \<and> \<not> isDuplicate (Some \<lparr>status = 500, message = None\<rparr>)
   \<and> \<not> isUnauthorized (Some \<lparr>status = 500, message = None\<rparr>)
   \<and> effects (onError (Some \<lparr>status = 500, message = None\<rparr>) submittedOne)
       = effects submittedOne @
         [Toast ''Error'' ''Failed to submit exam. Please try again.'' Destructive]
   \<and> \<not> isDuplicate None \<and> \<not> isUnauthorized None
   \<and> effects (onError None submittedOne)
       = effects submittedOne @
         [Toast ''Error'' ''Failed to submit exam. Please try again.'' Destructive]"
  using submission_failure_cases[of "Some \<lparr>status = 400, message = Some alreadySubmitted\<rparr>" submittedOne]
    submission_failure_cases[of "Some \<lparr>status = 401, message = None\<rparr>" submittedOne]
    submission_failure_cases[of "Some \<lparr>status = 500, message = None\<rparr>" submittedOne]
    submission_failure_cases[of None submittedOne]
  by (simp add: isDuplicate_def isUnauthorized_def errorMessage_def submittedOne_fields)

subsection \<open>Clearing the side-store\<close>

lemma examKey_inj: "examKey i s = examKey j s \<longleftrightarrow> i = j"
  by (simp add: examKey_def)

lemma examKey_last:
  "s \<noteq> [] \<Longrightarrow> t \<noteq> [] \<Longrightarrow> last s \<noteq> last t \<Longrightarrow> examKey i s \<noteq> examKey j t"
proof
  assume a: "s \<noteq> []" "t \<noteq> []" "last s \<noteq> last t" and e: "examKey i s = examKey j t"
  from e have "last (examKey i s) = last (examKey j t)" by simp
  with a show False by (simp add: examKey_def)
qed

lemma attemptKeys_other:
  assumes "i \<noteq> j" "k \<in> set (attemptKeys j)"
  shows "k \<notin> set (attemptKeys i)"
proof -
  have d: "\<And>s t. s \<noteq> [] \<Longrightarrow> t \<noteq> [] \<Longrightarrow> last s \<noteq> last t \<Longrightarrow> examKey j s \<noteq> examKey i t"
    by (rule examKey_last)
  have e: "\<And>s. examKey j s \<noteq> examKey i s"
    using assms(1) by (simp add: examKey_inj)
  show ?thesis
    using assms(2)
    by (auto simp: attemptKeys_def answersKey_def questionIndexKey_def timeLeftKey_def
        startTimeKey_def e d)
qed

lemma startsWith_examKey: "startsWith (examKey j sfx) ''exam_''"
  by (simp add: startsWith_def examKey_def)

lemma onSuccess_store:
  "localStorage (onSuccess w) k
     = (if k \<in> set (attemptKeys (examId w)) then None else localStorage w k)"
  by (simp add: onSuccess_def removeItem_def attemptKeys_def)

lemma unmount_store:
  "localStorage (unmount w) k
     = (case examPaper w of
          None \<Rightarrow> localStorage w k
        | Some p \<Rightarrow>
            if duration p \<noteq> 0 \<and> (k = timeLeftKey (examId w) \<or> k = startTimeKey (examId w))
            then None else localStorage w k)"
  by (simp add: unmount_def timerCleanup_def removeItem_def split: option.splits)

text \<open>No handler but the success handler removes a key; the unmount removes the timer keys only.\<close>

lemma saveEffect_keeps: "localStorage w k \<noteq> None \<Longrightarrow> localStorage (saveEffect w) k \<noteq> None"
  by (simp add: saveEffect_def setItem_def)

lemma act_keeps: "localStorage w k \<noteq> None \<Longrightarrow> localStorage (act w x) k \<noteq> None"
proof (cases x)
  case (AnswerChange a)
  then show "localStorage w k \<noteq> None \<Longrightarrow> localStorage (act w x) k \<noteq> None"
    by (cases "handleAnswerChange a w")
       (auto simp: answerChange_def handleAnswerChange_def Let_def saveEffect_def setItem_def
          split: option.splits if_splits)
next
  case Next
  then show "localStorage w k \<noteq> None \<Longrightarrow> localStorage (act w x) k \<noteq> None"
    by (auto simp: handleNext_def saveEffect_def setItem_def split: option.splits)
next
  case Previous
  then show "localStorage w k \<noteq> None \<Longrightarrow> localStorage (act w x) k \<noteq> None"
    by (auto simp: handlePrevious_def saveEffect_def setItem_def)
qed

lemma tick_store [simp]: "localStorage (tick c w) = localStorage w"
  by (simp add: tick_def split: option.splits)

lemma onError_store [simp]: "localStorage (onError e w) = localStorage w"
  by (simp add: onError_def Let_def)

lemma step_keeps:
  assumes "localStorage w k \<noteq> None"
    and "ev \<noteq> Unmount \<or> (k \<noteq> timeLeftKey (examId w) \<and> k \<noteq> startTimeKey (examId w))"
  shows "localStorage (step w ev) k \<noteq> None"
proof (cases ev)
  case (Act x)
  then show ?thesis using assms(1) by (simp add: act_keeps)
next
  case (Submit c)
  then show ?thesis using assms(1) by (simp add: clickSubmit_def)
next
  case (Tick c)
  then show ?thesis using assms(1) by simp
next
  case (Failure e)
  then show ?thesis using assms(1) by simp
next
  case (Elapse ms)
  then show ?thesis using assms(1) by (simp add: elapse_def)
next
  case Unmount
  then show ?thesis using assms by (simp add: unmount_store split: option.splits)
qed

text \<open>
  A student leaves the page of a running one-minute exam: no submission has succeeded and
  nobody has logged out, yet the remaining-time and start-time keys of the attempt are gone
  (the answers and the question index stay).
\<close>

theorem unmount_removes_timer_keys:
  "map (localStorage (fresh onePaper)) (attemptKeys ''e1'')
     = [Some (AnswersJson []), Some (NumText 0), Some (NumText 60), Some (DateText 0)]
   \<and> map (localStorage (unmount (fresh onePaper))) (attemptKeys ''e1'')
     = [Some (AnswersJson []), Some (NumText 0), None, None]
   \<and> effects (unmount (fresh onePaper)) = []"
  by code_simp

text \<open>
  Claim C9, as amended. After the submission success handler has run, none of the four keys
  of the attempt (answers, question index, remaining time, start time) is in the store; every
  key of another attempt, and every other key, is what it was. Logout removes every key of
  every attempt: every key that starts with \<^verbatim>\<open>exam_\<close>. Nothing else that happens to the
  session (an answer, a navigation step, a press of the submit button, a tick, a failed
  submission, the passing of time) removes any key, the arrival of a different paper object
  touches none but the remaining-time and start-time keys of the attempt, and the unmount
  removes none but these two, which it does remove once the countdown has started: the
  answers and the question index are destroyed by a successful submission or a logout only,
  the two timer keys also by every unmount.
\<close>

theorem side_store_cleared_on_success_and_logout:
  "(\<forall>k \<in> set (attemptKeys (examId w)). localStorage (onSuccess w) k = None)
   \<and> (\<forall>j k. j \<noteq> examId w \<and> k \<in> set (attemptKeys j) \<longrightarrow>
          localStorage (onSuccess w) k = localStorage w k)
   \<and> (\<forall>k. k \<notin> set (attemptKeys (examId w)) \<longrightarrow> localStorage (onSuccess w) k = localStorage w k)
   \<and> (\<forall>j sfx. fst (logout path st) (examKey j sfx) = None)
   \<and> (\<forall>k. startsWith k ''exam_'' \<longrightarrow> fst (logout path st) k = None)
   \<and> (\<forall>ev k. ev \<noteq> Unmount \<and> localStorage w k \<noteq> None \<longrightarrow> localStorage (step w ev) k \<noteq> None)
   \<and> (\<forall>k. k \<noteq> timeLeftKey (examId w) \<and> k \<noteq> startTimeKey (examId w) \<longrightarrow>
          localStorage (unmount w) k = localStorage w k)
   \<and> (\<forall>p. examPaper w = Some p \<and> duration p \<noteq> 0 \<longrightarrow>
          localStorage (unmount w) (timeLeftKey (examId w)) = None
        \<and> localStorage (unmount w) (startTimeKey (examId w)) = None)
   \<and> (\<forall>p w' k. paperChanged p w = Inr w'
          \<and> k \<noteq> timeLeftKey (examId w) \<and> k \<noteq> startTimeKey (examId w) \<longrightarrow>
          localStorage w' k = localStorage w k)"
proof -
  have 1: "\<forall>k \<in> set (attemptKeys (examId w)). localStorage (onSuccess w) k = None"
    by (simp add: onSuccess_store)
  have 2: "\<forall>j k. j \<noteq> examId w \<and> k \<in> set (attemptKeys j) \<longrightarrow>
          localStorage (onSuccess w) k = localStorage w k"
  proof (intro allI impI)
    fix j k
    assume "j \<noteq> examId w \<and> k \<in> set (attemptKeys j)"
    then have "k \<notin> set (attemptKeys (examId w))"
      using attemptKeys_other[of "examId w" j k] by auto
    then show "localStorage (onSuccess w) k = localStorage w k"
      by (simp add: onSuccess_store)
  qed
  have 3: "\<forall>k. k \<notin> set (attemptKeys (examId w)) \<longrightarrow> localStorage (onSuccess w) k = localStorage w k"
    by (simp add: onSuccess_store)
  have 4: "\<forall>k. startsWith k ''exam_'' \<longrightarrow> fst (logout path st) k = None"
    by (simp add: logout_def logoutStorage_def)
  then have 5: "\<forall>j sfx. fst (logout path st) (examKey j sfx) = None"
    using startsWith_examKey by blast
  have 6: "\<forall>ev k. ev \<noteq> Unmount \<and> localStorage w k \<noteq> None \<longrightarrow> localStorage (step w ev) k \<noteq> None"
    using step_keeps[of w] by blast
  have 7: "\<forall>k. k \<noteq> timeLeftKey (examId w) \<and> k \<noteq> startTimeKey (examId w) \<longrightarrow>
          localStorage (unmount w) k = localStorage w k"
    by (simp add: unmount_store split: option.splits)
  have 8: "\<forall>p. examPaper w = Some p \<and> duration p \<noteq> 0 \<longrightarrow>
          localStorage (unmount w) (timeLeftKey (examId w)) = None
        \<and> localStorage (unmount w) (startTimeKey (examId w)) = None"
    by (simp add: unmount_store)
  have 9: "\<forall>p w' k. paperChanged p w = Inr w'
          \<and> k \<noteq> timeLeftKey (examId w) \<and> k \<noteq> startTimeKey (examId w) \<longrightarrow>
          localStorage w' k = localStorage w k"
    by (auto simp: paperChanged_def timerEffect_def setItem_def unmount_def timerCleanup_def
        removeItem_def split: option.splits if_splits)
  from 1 2 3 4 5 6 7 8 9 show ?thesis by blast
qed

theorem side_store_cleared_on_success_and_logout_witness:
  "map (localStorage resumedTwo) (attemptKeys ''e1'')
     = [Some (AnswersJson [\<lparr>questionIndex = 0, selectedOption = ''A'', question = ''q0''\<rparr>]),
        Some (NumText 0), Some (NumText 60), Some (DateText 0)]
   \<and> map (localStorage (onSuccess resumedTwo)) (attemptKeys ''e1'') = [None, None, None, None]
   \<and> ''e2'' \<noteq> examId resumedTwo
   \<and> answersKey ''e2'' \<in> set (attemptKeys ''e2'')
   \<and> localStorage (onSuccess resumedTwo) (answersKey ''e2'') = Some (AnswersJson [])
   \<and> ''theme'' \<notin> set (attemptKeys (examId resumedTwo))
   \<and> localStorage (onSuccess resumedTwo) ''theme'' = Some (RawText ''dark'')
   \<and> startsWith (answersKey ''e2'') ''exam_''
   \<and> fst (logout ''/exam-panel/e1'' (localStorage resumedTwo)) (answersKey ''e2'') = None
   \<and> fst (logout ''/exam-panel/e1'' (localStorage resumedTwo)) (timeLeftKey ''e1'') = None
   \<and> fst (logout ''/exam-panel/e1'' (localStorage resumedTwo)) ''theme'' = Some (RawText ''dark'')
   \<and> fst (logout ''/exam-panel/e1'' (localStorage resumedTwo)) ''token'' = None
   \<and> Tick True \<noteq> Unmount
   \<and> localStorage (step resumedTwo (Tick True)) (timeLeftKey ''e1'') \<noteq> None
   \<and> examPaper resumedTwo = Some onePaper \<and> duration onePaper \<noteq> 0
   \<and> map (localStorage (unmount resumedTwo)) (attemptKeys ''e1'')
     = [Some (AnswersJson [\<lparr>questionIndex = 0, selectedOption = ''A'', question = ''q0''\<rparr>]),
        Some (NumText 0), None, None]"
proof -
  have u: "twoAttempts (answersKey ''e1'') = None" "twoAttempts (questionIndexKey ''e1'') = None"
    by (simp_all add: twoAttempts_def answersKey_def questionIndexKey_def examKey_def)
  have w: "session 0 twoAttempts onePaper
      = timerEffect ((saveEffect (initial ''e1'' True 0 twoAttempts))\<lparr>examPaper := Some onePaper\<rparr>)"
    by (simp add: session_def openSession_def mount_unsaved[OF u] loaded_def renders_def)
  have i: "examId resumedTwo = ''e1''" "examPaper resumedTwo = Some onePaper"
    by (simp_all add: resumedTwo_def clickSubmit_def w)
  have k: "attemptKeys ''e1'' = [''exam_e1_answers'', ''exam_e1_questionIndex'', ''exam_e1_timeLeft'', ''exam_e1_startTime'']"
    "answersKey ''e2'' = ''exam_e2_answers''" "timeLeftKey ''e1'' = ''exam_e1_timeLeft''"
    "startTimeKey ''e1'' = ''exam_e1_startTime''"
    "attemptKeys ''e2'' = [''exam_e2_answers'', ''exam_e2_questionIndex'', ''exam_e2_timeLeft'', ''exam_e2_startTime'']"
    by (simp_all add: attemptKeys_def answersKey_def questionIndexKey_def timeLeftKey_def startTimeKey_def examKey_def)
  have a: "answerChange ''A'' (timerEffect ((saveEffect (initial ''e1'' True 0 twoAttempts))\<lparr>examPaper := Some onePaper\<rparr>))
      = saveEffect ((timerEffect ((saveEffect (initial ''e1'' True 0 twoAttempts))\<lparr>examPaper := Some onePaper\<rparr>))
          \<lparr>answers := [\<lparr>questionIndex = 0, selectedOption = ''A'', question = ''q0''\<rparr>]\<rparr>)"
    by (simp add: answerChange_def handleAnswerChange_def) (simp add: onePaper_def demoQuestion_def)
  have s: "localStorage resumedTwo = (twoAttempts(''exam_e1_answers'' \<mapsto> AnswersJson [\<lparr>questionIndex = 0, selectedOption = ''A'', question = ''q0''\<rparr>],
      ''exam_e1_questionIndex'' \<mapsto> NumText 0, ''exam_e1_timeLeft'' \<mapsto> NumText 60, ''exam_e1_startTime'' \<mapsto> DateText 0))"
    unfolding resumedTwo_def w a
    by (rule ext) (simp add: clickSubmit_def timerEffect_def saveEffect_def setItem_def
        answersKey_def questionIndexKey_def timeLeftKey_def startTimeKey_def examKey_def)
  have t: "twoAttempts ''theme'' = Some (RawText ''dark'')" "twoAttempts ''exam_e2_answers'' = Some (AnswersJson [])"
    by (simp_all add: twoAttempts_def answersKey_def questionIndexKey_def examKey_def)
  show ?thesis
    using side_store_cleared_on_success_and_logout[of resumedTwo "''/exam-panel/e1''" "localStorage resumedTwo"]
    by (simp add: i k s t logout_def logoutStorage_def startsWith_def removeItem_def)
qed

end
